theory Spec2Isabelle
  imports Main "HOL-Library.Sublist"
begin

section \<open>JavaScript primitives used by the templates\<close>

text \<open>
  Strings are lists of characters. \<open>String.prototype.includes\<close>, \<open>startsWith\<close> and
  \<open>endsWith\<close> are \<open>sublist\<close>, \<open>prefix\<close> and \<open>suffix\<close> of the list library.
\<close>

text \<open>
  A number of a payload is a JavaScript double. The code does two things with such a
  number: it interpolates it into a template literal, and it tests it with \<open>||\<close>.
  Both are fixed by the text that the runtime's Number-to-string conversion gives for
  the number (digits, a fraction, an exponent form from \<open>1e+21\<close>, \<open>Infinity\<close>,
  \<open>NaN\<close>): the falsy numbers are \<open>0\<close>, \<open>-0\<close> and \<open>NaN\<close>, which are rendered
  \<open>0\<close>, \<open>0\<close> and \<open>NaN\<close>, and no other number is rendered so. A number is
  therefore represented by that text.
\<close>

datatype number = Number (shown: string)

definition falsy :: "number \<Rightarrow> bool" where
  "falsy n = (shown n = ''0'' \<or> shown n = ''NaN'')"

text \<open>
  The length of an array is an integer below \<open>2^32\<close>; a template literal renders it in
  decimal digits.
\<close>

definition digitChar :: "nat \<Rightarrow> char" where
  "digitChar n = ''0123456789'' ! n"

fun showNat :: "nat \<Rightarrow> string" where
  "showNat n = (if n < 10 then [digitChar n] else showNat (n div 10) @ [digitChar (n mod 10)])"

declare showNat.simps [simp del]

text \<open>\<open>Array.prototype.join\<close>: the elements separated by \<open>sep\<close>.\<close>

fun join :: "string \<Rightarrow> string list \<Rightarrow> string" where
  "join sep [] = []"
| "join sep [x] = x"
| "join sep (x # y # ys) = x @ sep @ join sep (y # ys)"

text \<open>
  \<open>String.prototype.replace\<close> with a string pattern: only the first occurrence of the
  pattern is replaced (the replacements used here contain no \<open>$\<close> pattern).
\<close>

fun replace :: "string \<Rightarrow> string \<Rightarrow> string \<Rightarrow> string" where
  "replace pat rep [] = (if pat = [] then rep else [])"
| "replace pat rep (c # cs) =
     (if prefix pat (c # cs) then rep @ drop (length pat) (c # cs)
      else c # replace pat rep cs)"

text \<open>
  \<open>String.prototype.toLowerCase\<close> belongs to the runtime and follows the Unicode case
  mapping. The manifest generator takes it as its parameter \<open>toLowerCase\<close>.
  \<open>asciiLowerCase\<close> is the mapping on strings of ASCII characters, where both agree; it
  is used for the example values only.
\<close>

definition lowerChar :: "char \<Rightarrow> char" where
  "lowerChar c =
     (let n = of_char c :: nat in if 65 \<le> n \<and> n \<le> 90 then char_of (n + 32) else c)"

definition asciiLowerCase :: "string \<Rightarrow> string" where
  "asciiLowerCase s = map lowerChar s"

section \<open>Domain model (shared/schema.ts)\<close>

text \<open>
  Every zod object schema is a record. Field names carry a short prefix of their record,
  since the schemas share the names \<open>id\<close>, \<open>name\<close>, \<open>serviceId\<close> and so on.
  String-literal unions that the modelled code compares with literals (phase, build type,
  deployment strategy, validation status) stay strings, as they are on the wire; the
  routes read \<open>req.body\<close> without parsing it against a schema.
\<close>

datatype CommunicationType = Sync | Async | EventDriven

record Service =
  svc_id :: string
  svc_name :: string
  svc_description :: string
  svc_boundedContext :: string
  svc_responsibilities :: "string list"
  svc_dependencies :: "string list"
  svc_communicationType :: CommunicationType
  svc_dataOwnership :: "string list"

record BoundedContext =
  bc_id :: string
  bc_name :: string
  bc_description :: string
  bc_domainEvents :: "string list"
  bc_aggregates :: "string list"
  bc_services :: "string list"

record EnvVar =
  env_key :: string
  env_value :: string
  env_isSecret :: bool

record HealthCheck =
  hc_path :: string
  hc_port :: number
  hc_intervalSeconds :: number

record ResourceLimits =
  rl_cpuLimit :: string
  rl_memoryLimit :: string
  rl_cpuRequest :: string
  rl_memoryRequest :: string

record ContainerConfig =
  cc_id :: string
  cc_serviceId :: string
  cc_baseImage :: string
  cc_buildType :: string
  cc_exposedPorts :: "number list"
  cc_environmentVariables :: "EnvVar list"
  cc_healthCheck :: "HealthCheck option"
  cc_resourceLimits :: "ResourceLimits option"

datatype SLOMetric = Availability | Latency | Throughput | ErrorRate

record SLODefinition =
  slo_id :: string
  slo_serviceId :: string
  slo_metric :: SLOMetric
  slo_target :: number
  slo_unit :: string
  slo_window :: string

datatype AutoscalingType = HPA | VPA | KEDA

record AutoscalingStrategy =
  as_id :: string
  as_serviceId :: string
  as_type :: AutoscalingType
  as_minReplicas :: number
  as_maxReplicas :: number
  as_targetMetric :: string
  as_targetValue :: number

text \<open>
  A \<open>z.record(z.string())\<close> is the list of its entries in the order \<open>Object.entries\<close>
  enumerates them, with distinct keys.
\<close>

record K8sManifest =
  km_id :: string
  km_serviceId :: string
  km_deploymentStrategy :: string
  km_replicas :: number
  km_namespace :: string
  km_labels :: "(string \<times> string) list"
  km_annotations :: "(string \<times> string) list option"

datatype ResilienceType = CircuitBreaker | Bulkhead | Retry | Timeout | RateLimiter

datatype json = JNull | JBool bool | JNum number | JStr string

record ResiliencePattern =
  rp_id :: string
  rp_serviceId :: string
  rp_type :: ResilienceType
  rp_config :: "(string \<times> json) list"
  rp_enabled :: bool

datatype LogLevel = Debug | Info | Warn | Error
datatype LogFormat = Json | Text
datatype TraceExporter = Jaeger | Zipkin | Otlp

record MetricsConfig =
  mc_enabled :: bool
  mc_endpoint :: "string option"
  mc_scrapeInterval :: "string option"

record LoggingConfig =
  lc_enabled :: bool
  lc_level :: LogLevel
  lc_format :: LogFormat

record TracingConfig =
  tc_enabled :: bool
  tc_samplingRate :: "number option"
  tc_exporter :: "TraceExporter option"

record ObservabilityConfig =
  oc_id :: string
  oc_serviceId :: string
  oc_metrics :: MetricsConfig
  oc_logging :: LoggingConfig
  oc_tracing :: TracingConfig

record ArchitectureProject =
  p_id :: string
  p_name :: string
  p_description :: string
  p_currentPhase :: string
  p_boundedContexts :: "BoundedContext list"
  p_services :: "Service list"
  p_containerConfigs :: "ContainerConfig list"
  p_sloDefinitions :: "SLODefinition list"
  p_autoscalingStrategies :: "AutoscalingStrategy list"
  p_k8sManifests :: "K8sManifest list"
  p_resiliencePatterns :: "ResiliencePattern list"
  p_observabilityConfigs :: "ObservabilityConfig list"
  p_createdAt :: string
  p_updatedAt :: string

text \<open>
  \<open>Partial<ArchitectureProject>\<close>: every field may be absent. It is the argument of
  \<open>updateProjectLocal\<close> in the client store and of \<open>updateProject\<close> in the storage.
\<close>

record ProjectUpdates =
  u_id :: "string option"
  u_name :: "string option"
  u_description :: "string option"
  u_currentPhase :: "string option"
  u_boundedContexts :: "BoundedContext list option"
  u_services :: "Service list option"
  u_containerConfigs :: "ContainerConfig list option"
  u_sloDefinitions :: "SLODefinition list option"
  u_autoscalingStrategies :: "AutoscalingStrategy list option"
  u_k8sManifests :: "K8sManifest list option"
  u_resiliencePatterns :: "ResiliencePattern list option"
  u_observabilityConfigs :: "ObservabilityConfig list option"
  u_createdAt :: "string option"
  u_updatedAt :: "string option"

definition noUpdates :: ProjectUpdates where
  "noUpdates =
     \<lparr>u_id = None, u_name = None, u_description = None, u_currentPhase = None,
      u_boundedContexts = None, u_services = None, u_containerConfigs = None,
      u_sloDefinitions = None, u_autoscalingStrategies = None, u_k8sManifests = None,
      u_resiliencePatterns = None, u_observabilityConfigs = None,
      u_createdAt = None, u_updatedAt = None\<rparr>"

record ValidationResult =
  v_id :: string
  v_phase :: string
  v_category :: string
  v_status :: string
  v_message :: string
  v_details :: "string option"

section \<open>Project store (client context provider)\<close>

text \<open>
  The store holds \<open>project : ArchitectureProject | null\<close> in React state. Two values
  of it take part in a mutation. The callback (\<open>addService\<close>, \<open>removeService\<close>, ...)
  was built at a render and reads the \<open>project\<close> of that render to compute the new
  collection. It hands the collection to \<open>updateProjectLocal\<close>, whose state updater
  runs on \<open>prev\<close>, the state at the time the update is applied, spreads the collection
  over it and stamps \<open>updatedAt\<close>. After a render \<open>project\<close> and \<open>prev\<close> are the same
  value; a second mutation issued before the next render still reads the old
  \<open>project\<close>. Each mutation below takes both, \<open>project\<close> first; \<open>now\<close> stands for
  \<open>new Date().toISOString()\<close>.
\<close>

definition spread :: "ArchitectureProject \<Rightarrow> ProjectUpdates \<Rightarrow> ArchitectureProject" where
  "spread prev updates =
     \<lparr>p_id = (case u_id updates of None \<Rightarrow> p_id prev | Some x \<Rightarrow> x),
      p_name = (case u_name updates of None \<Rightarrow> p_name prev | Some x \<Rightarrow> x),
      p_description = (case u_description updates of None \<Rightarrow> p_description prev | Some x \<Rightarrow> x),
      p_currentPhase = (case u_currentPhase updates of None \<Rightarrow> p_currentPhase prev | Some x \<Rightarrow> x),
      p_boundedContexts =
        (case u_boundedContexts updates of None \<Rightarrow> p_boundedContexts prev | Some x \<Rightarrow> x),
      p_services = (case u_services updates of None \<Rightarrow> p_services prev | Some x \<Rightarrow> x),
      p_containerConfigs =
        (case u_containerConfigs updates of None \<Rightarrow> p_containerConfigs prev | Some x \<Rightarrow> x),
      p_sloDefinitions =
        (case u_sloDefinitions updates of None \<Rightarrow> p_sloDefinitions prev | Some x \<Rightarrow> x),
      p_autoscalingStrategies =
        (case u_autoscalingStrategies updates of
           None \<Rightarrow> p_autoscalingStrategies prev | Some x \<Rightarrow> x),
      p_k8sManifests = (case u_k8sManifests updates of None \<Rightarrow> p_k8sManifests prev | Some x \<Rightarrow> x),
      p_resiliencePatterns =
        (case u_resiliencePatterns updates of None \<Rightarrow> p_resiliencePatterns prev | Some x \<Rightarrow> x),
      p_observabilityConfigs =
        (case u_observabilityConfigs updates of
           None \<Rightarrow> p_observabilityConfigs prev | Some x \<Rightarrow> x),
      p_createdAt = (case u_createdAt updates of None \<Rightarrow> p_createdAt prev | Some x \<Rightarrow> x),
      p_updatedAt = (case u_updatedAt updates of None \<Rightarrow> p_updatedAt prev | Some x \<Rightarrow> x)\<rparr>"

definition updateProjectLocal ::
  "ProjectUpdates \<Rightarrow> string \<Rightarrow> ArchitectureProject option \<Rightarrow> ArchitectureProject option" where
  "updateProjectLocal updates now prev =
     (case prev of
        None \<Rightarrow> None
      | Some p \<Rightarrow> Some ((spread p updates)\<lparr>p_updatedAt := now\<rparr>))"

definition canAdvanceToPhase :: "ArchitectureProject option \<Rightarrow> string \<Rightarrow> bool" where
  "canAdvanceToPhase project phase =
     (case project of
        None \<Rightarrow> False
      | Some p \<Rightarrow>
          if phase = ''A'' then True
          else if phase = ''B'' then length (p_services p) > 0
          else if phase = ''C'' then length (p_containerConfigs p) > 0
          else if phase = ''D'' then length (p_k8sManifests p) > 0
          else False)"

text \<open>\<open>project?.xs || []\<close>: the collection of the project, or the empty array.\<close>

definition orEmpty :: "ArchitectureProject option \<Rightarrow> (ArchitectureProject \<Rightarrow> 'a list) \<Rightarrow> 'a list" where
  "orEmpty project sel = (case project of None \<Rightarrow> [] | Some p \<Rightarrow> sel p)"

definition addBoundedContext ::
  "BoundedContext \<Rightarrow> string \<Rightarrow> ArchitectureProject option \<Rightarrow> ArchitectureProject option
     \<Rightarrow> ArchitectureProject option" where
  "addBoundedContext context now project prev =
     updateProjectLocal
       (noUpdates\<lparr>u_boundedContexts := Some (orEmpty project p_boundedContexts @ [context])\<rparr>)
       now prev"

definition removeBoundedContext ::
  "string \<Rightarrow> string \<Rightarrow> ArchitectureProject option \<Rightarrow> ArchitectureProject option
     \<Rightarrow> ArchitectureProject option" where
  "removeBoundedContext i now project prev =
     updateProjectLocal
       (noUpdates\<lparr>u_boundedContexts :=
          Some (filter (\<lambda>ctx. bc_id ctx \<noteq> i) (orEmpty project p_boundedContexts))\<rparr>)
       now prev"

definition addService ::
  "Service \<Rightarrow> string \<Rightarrow> ArchitectureProject option \<Rightarrow> ArchitectureProject option
     \<Rightarrow> ArchitectureProject option" where
  "addService service now project prev =
     updateProjectLocal
       (noUpdates\<lparr>u_services := Some (orEmpty project p_services @ [service])\<rparr>)
       now prev"

definition removeService ::
  "string \<Rightarrow> string \<Rightarrow> ArchitectureProject option \<Rightarrow> ArchitectureProject option
     \<Rightarrow> ArchitectureProject option" where
  "removeService i now project prev =
     updateProjectLocal
       (noUpdates\<lparr>u_services :=
          Some (filter (\<lambda>svc. svc_id svc \<noteq> i) (orEmpty project p_services))\<rparr>)
       now prev"

definition addContainerConfig ::
  "ContainerConfig \<Rightarrow> string \<Rightarrow> ArchitectureProject option \<Rightarrow> ArchitectureProject option
     \<Rightarrow> ArchitectureProject option" where
  "addContainerConfig config now project prev =
     updateProjectLocal
       (noUpdates\<lparr>u_containerConfigs := Some (orEmpty project p_containerConfigs @ [config])\<rparr>)
       now prev"

definition removeContainerConfig ::
  "string \<Rightarrow> string \<Rightarrow> ArchitectureProject option \<Rightarrow> ArchitectureProject option
     \<Rightarrow> ArchitectureProject option" where
  "removeContainerConfig i now project prev =
     updateProjectLocal
       (noUpdates\<lparr>u_containerConfigs :=
          Some (filter (\<lambda>cfg. cc_id cfg \<noteq> i) (orEmpty project p_containerConfigs))\<rparr>)
       now prev"

definition addSLO ::
  "SLODefinition \<Rightarrow> string \<Rightarrow> ArchitectureProject option \<Rightarrow> ArchitectureProject option
     \<Rightarrow> ArchitectureProject option" where
  "addSLO slo now project prev =
     updateProjectLocal
       (noUpdates\<lparr>u_sloDefinitions := Some (orEmpty project p_sloDefinitions @ [slo])\<rparr>)
       now prev"

definition removeSLO ::
  "string \<Rightarrow> string \<Rightarrow> ArchitectureProject option \<Rightarrow> ArchitectureProject option
     \<Rightarrow> ArchitectureProject option" where
  "removeSLO i now project prev =
     updateProjectLocal
       (noUpdates\<lparr>u_sloDefinitions :=
          Some (filter (\<lambda>s. slo_id s \<noteq> i) (orEmpty project p_sloDefinitions))\<rparr>)
       now prev"

definition addAutoscaling ::
  "AutoscalingStrategy \<Rightarrow> string \<Rightarrow> ArchitectureProject option \<Rightarrow> ArchitectureProject option
     \<Rightarrow> ArchitectureProject option" where
  "addAutoscaling strategy now project prev =
     updateProjectLocal
       (noUpdates\<lparr>u_autoscalingStrategies := Some (orEmpty project p_autoscalingStrategies @ [strategy])\<rparr>)
       now prev"

definition removeAutoscaling ::
  "string \<Rightarrow> string \<Rightarrow> ArchitectureProject option \<Rightarrow> ArchitectureProject option
     \<Rightarrow> ArchitectureProject option" where
  "removeAutoscaling i now project prev =
     updateProjectLocal
       (noUpdates\<lparr>u_autoscalingStrategies :=
          Some (filter (\<lambda>s. as_id s \<noteq> i) (orEmpty project p_autoscalingStrategies))\<rparr>)
       now prev"

definition addK8sManifest ::
  "K8sManifest \<Rightarrow> string \<Rightarrow> ArchitectureProject option \<Rightarrow> ArchitectureProject option
     \<Rightarrow> ArchitectureProject option" where
  "addK8sManifest manifest now project prev =
     updateProjectLocal
       (noUpdates\<lparr>u_k8sManifests := Some (orEmpty project p_k8sManifests @ [manifest])\<rparr>)
       now prev"

definition removeK8sManifest ::
  "string \<Rightarrow> string \<Rightarrow> ArchitectureProject option \<Rightarrow> ArchitectureProject option
     \<Rightarrow> ArchitectureProject option" where
  "removeK8sManifest i now project prev =
     updateProjectLocal
       (noUpdates\<lparr>u_k8sManifests :=
          Some (filter (\<lambda>m. km_id m \<noteq> i) (orEmpty project p_k8sManifests))\<rparr>)
       now prev"

definition addResiliencePattern ::
  "ResiliencePattern \<Rightarrow> string \<Rightarrow> ArchitectureProject option \<Rightarrow> ArchitectureProject option
     \<Rightarrow> ArchitectureProject option" where
  "addResiliencePattern pattern now project prev =
     updateProjectLocal
       (noUpdates\<lparr>u_resiliencePatterns := Some (orEmpty project p_resiliencePatterns @ [pattern])\<rparr>)
       now prev"

definition removeResiliencePattern ::
  "string \<Rightarrow> string \<Rightarrow> ArchitectureProject option \<Rightarrow> ArchitectureProject option
     \<Rightarrow> ArchitectureProject option" where
  "removeResiliencePattern i now project prev =
     updateProjectLocal
       (noUpdates\<lparr>u_resiliencePatterns :=
          Some (filter (\<lambda>p. rp_id p \<noteq> i) (orEmpty project p_resiliencePatterns))\<rparr>)
       now prev"

definition addObservabilityConfig ::
  "ObservabilityConfig \<Rightarrow> string \<Rightarrow> ArchitectureProject option \<Rightarrow> ArchitectureProject option
     \<Rightarrow> ArchitectureProject option" where
  "addObservabilityConfig config now project prev =
     updateProjectLocal
       (noUpdates\<lparr>u_observabilityConfigs := Some (orEmpty project p_observabilityConfigs @ [config])\<rparr>)
       now prev"

definition removeObservabilityConfig ::
  "string \<Rightarrow> string \<Rightarrow> ArchitectureProject option \<Rightarrow> ArchitectureProject option
     \<Rightarrow> ArchitectureProject option" where
  "removeObservabilityConfig i now project prev =
     updateProjectLocal
       (noUpdates\<lparr>u_observabilityConfigs :=
          Some (filter (\<lambda>c. oc_id c \<noteq> i) (orEmpty project p_observabilityConfigs))\<rparr>)
       now prev"

section \<open>Persistence (DatabaseStorage) and the project routes\<close>

text \<open>
  A row of the \<open>projects\<close> table of shared/schema.ts. \<open>description\<close> is the only
  nullable column; \<open>current_phase\<close> is \<open>varchar(1)\<close>; every other column is
  \<open>NOT NULL\<close>. The two timestamp columns are represented by their ISO-8601 rendering.
  The table is a map from the primary key to its row. A statement that breaks a
  constraint of the table is refused by the database: the awaited call throws and the
  table stays as it was.
\<close>

record DbProject =
  row_id :: string
  row_name :: string
  row_description :: "string option"
  row_currentPhase :: string
  row_boundedContexts :: "BoundedContext list"
  row_services :: "Service list"
  row_containerConfigs :: "ContainerConfig list"
  row_sloDefinitions :: "SLODefinition list"
  row_autoscalingStrategies :: "AutoscalingStrategy list"
  row_k8sManifests :: "K8sManifest list"
  row_resiliencePatterns :: "ResiliencePattern list"
  row_observabilityConfigs :: "ObservabilityConfig list"
  row_createdAt :: string
  row_updatedAt :: string

type_synonym projectsTable = "string \<rightharpoonup> DbProject"

definition dbRowToProject :: "DbProject \<Rightarrow> ArchitectureProject" where
  "dbRowToProject row =
     \<lparr>p_id = row_id row,
      p_name = row_name row,
      p_description = (case row_description row of None \<Rightarrow> [] | Some d \<Rightarrow> d),
      p_currentPhase = row_currentPhase row,
      p_boundedContexts = row_boundedContexts row,
      p_services = row_services row,
      p_containerConfigs = row_containerConfigs row,
      p_sloDefinitions = row_sloDefinitions row,
      p_autoscalingStrategies = row_autoscalingStrategies row,
      p_k8sManifests = row_k8sManifests row,
      p_resiliencePatterns = row_resiliencePatterns row,
      p_observabilityConfigs = row_observabilityConfigs row,
      p_createdAt = row_createdAt row,
      p_updatedAt = row_updatedAt row\<rparr>"

text \<open>
  A property of a JSON request body is absent, \<open>null\<close>, or a value; a value has the
  type its schema gives it. \<open>x !== undefined\<close> holds for \<open>null\<close> and for a value.
\<close>

datatype 'a property = Absent | Null | Value 'a

text \<open>
  The body of \<open>PATCH /api/projects/:id\<close>, handed to \<open>updateProject\<close> as it is: the
  eleven properties that \<open>updateProject\<close> reads. It reads no other property of the
  body.
\<close>

record PatchBody =
  b_name :: "string property"
  b_description :: "string property"
  b_currentPhase :: "string property"
  b_boundedContexts :: "BoundedContext list property"
  b_services :: "Service list property"
  b_containerConfigs :: "ContainerConfig list property"
  b_sloDefinitions :: "SLODefinition list property"
  b_autoscalingStrategies :: "AutoscalingStrategy list property"
  b_k8sManifests :: "K8sManifest list property"
  b_resiliencePatterns :: "ResiliencePattern list property"
  b_observabilityConfigs :: "ObservabilityConfig list property"

text \<open>
  PostgreSQL stores a string in a \<open>varchar(1)\<close> column when it has at most one
  character or when all characters after the first are spaces, which it cuts off; any
  other string is an error.
\<close>

definition fitsVarchar1 :: "string \<Rightarrow> bool" where
  "fitsVarchar1 s = list_all (\<lambda>c. c = CHR '' '') (drop 1 s)"

text \<open>
  \<open>updateData\<close> carries \<open>updatedAt\<close> and each of the eleven properties that the body
  defines. The \<open>UPDATE\<close> built from it is refused when it sets a \<open>NOT NULL\<close> column to
  \<open>null\<close> or \<open>current_phase\<close> to a string that does not fit.
\<close>

definition refused :: "PatchBody \<Rightarrow> bool" where
  "refused updates =
     (b_name updates = Null
      \<or> (case b_currentPhase updates of
            Absent \<Rightarrow> False | Null \<Rightarrow> True | Value ph \<Rightarrow> \<not> fitsVarchar1 ph)
      \<or> b_boundedContexts updates = Null
      \<or> b_services updates = Null
      \<or> b_containerConfigs updates = Null
      \<or> b_sloDefinitions updates = Null
      \<or> b_autoscalingStrategies updates = Null
      \<or> b_k8sManifests updates = Null
      \<or> b_resiliencePatterns updates = Null
      \<or> b_observabilityConfigs updates = Null)"

text \<open>
  The value a column holds after an accepted \<open>SET\<close>: the old one when the property is
  absent, the new one otherwise (\<open>null\<close> reaches a \<open>NOT NULL\<close> column only in a refused
  statement).
\<close>

definition written :: "'a property \<Rightarrow> 'a \<Rightarrow> 'a" where
  "written x old = (case x of Absent \<Rightarrow> old | Null \<Rightarrow> old | Value v \<Rightarrow> v)"

definition setUpdateData :: "PatchBody \<Rightarrow> string \<Rightarrow> DbProject \<Rightarrow> DbProject" where
  "setUpdateData updates now row =
     \<lparr>row_id = row_id row,
      row_name = written (b_name updates) (row_name row),
      row_description =
        (case b_description updates of
           Absent \<Rightarrow> row_description row | Null \<Rightarrow> None | Value d \<Rightarrow> Some d),
      row_currentPhase =
        (case b_currentPhase updates of
           Absent \<Rightarrow> row_currentPhase row
         | Null \<Rightarrow> row_currentPhase row
         | Value ph \<Rightarrow> take 1 ph),
      row_boundedContexts = written (b_boundedContexts updates) (row_boundedContexts row),
      row_services = written (b_services updates) (row_services row),
      row_containerConfigs = written (b_containerConfigs updates) (row_containerConfigs row),
      row_sloDefinitions = written (b_sloDefinitions updates) (row_sloDefinitions row),
      row_autoscalingStrategies =
        written (b_autoscalingStrategies updates) (row_autoscalingStrategies row),
      row_k8sManifests = written (b_k8sManifests updates) (row_k8sManifests row),
      row_resiliencePatterns =
        written (b_resiliencePatterns updates) (row_resiliencePatterns row),
      row_observabilityConfigs =
        written (b_observabilityConfigs updates) (row_observabilityConfigs row),
      row_createdAt = row_createdAt row,
      row_updatedAt = now\<rparr>"

text \<open>
  The statements that the storage sends: the select by id of \<open>getProject\<close>, the update
  of \<open>updateProject\<close> with its body and time, the insert of \<open>createProject\<close>.
\<close>

datatype statement =
    Select string
  | Update string PatchBody string
  | Insert DbProject

text \<open>
  The database is the table together with \<open>db_fails\<close>, which says of a statement
  whether the database fails it for a reason of its own, beyond the constraints of the
  table modelled here (a lost connection, a string it cannot store). A failed statement
  changes nothing.
\<close>

record database =
  db_rows :: projectsTable
  db_fails :: "statement \<Rightarrow> bool"

text \<open>An awaited call throws or returns.\<close>

datatype 'a outcome = Threw | Returned 'a

definition getProject :: "database \<Rightarrow> string \<Rightarrow> ArchitectureProject option outcome" where
  "getProject db i =
     (if db_fails db (Select i) then Threw
      else Returned
             (case db_rows db i of None \<Rightarrow> None | Some row \<Rightarrow> Some (dbRowToProject row)))"

definition updateProject ::
  "database \<Rightarrow> string \<Rightarrow> PatchBody \<Rightarrow> string
     \<Rightarrow> database \<times> ArchitectureProject option outcome" where
  "updateProject db i updates now =
     (case getProject db i of
        Threw \<Rightarrow> (db, Threw)
      | Returned None \<Rightarrow> (db, Returned None)
      | Returned (Some existing) \<Rightarrow>
          if refused updates \<or> db_fails db (Update i updates now) then (db, Threw)
          else
            (case db_rows db i of
               None \<Rightarrow> (db, Returned None)
             | Some row \<Rightarrow>
                 (let row' = setUpdateData updates now row
                  in (db\<lparr>db_rows := (db_rows db)(i \<mapsto> row')\<rparr>,
                      Returned (Some (dbRowToProject row'))))))"

text \<open>
  The body of \<open>POST /api/projects\<close>. \<open>insertProjectSchema\<close> wants a name that is a
  string of at least one character and a description that is a string or absent.
\<close>

record InsertProject =
  ip_name :: "string property"
  ip_description :: "string property"

definition insertProjectSchema_ok :: "InsertProject \<Rightarrow> bool" where
  "insertProjectSchema_ok b =
     ((case ip_name b of Absent \<Rightarrow> False | Null \<Rightarrow> False | Value n \<Rightarrow> length n \<ge> 1)
      \<and> ip_description b \<noteq> Null)"

text \<open>
  \<open>createProject\<close> runs on parsed data. The \<open>INSERT\<close> is refused when the generated
  id is already a primary key of the table.
\<close>

definition createProject ::
  "database \<Rightarrow> InsertProject \<Rightarrow> string \<Rightarrow> string
     \<Rightarrow> database \<times> ArchitectureProject outcome" where
  "createProject db insertProject uuid now =
     (let row =
        \<lparr>row_id = uuid,
         row_name = written (ip_name insertProject) [],
         row_description = Some (written (ip_description insertProject) []),
         row_currentPhase = ''A'',
         row_boundedContexts = [], row_services = [], row_containerConfigs = [],
         row_sloDefinitions = [], row_autoscalingStrategies = [], row_k8sManifests = [],
         row_resiliencePatterns = [], row_observabilityConfigs = [],
         row_createdAt = now, row_updatedAt = now\<rparr>
      in if db_rows db uuid \<noteq> None \<or> db_fails db (Insert row) then (db, Threw)
         else (db\<lparr>db_rows := (db_rows db)(uuid \<mapsto> row)\<rparr>, Returned (dbRowToProject row)))"

text \<open>
  An HTTP response is its status code and its JSON body. The text of a zod parse error
  is zod's own and is kept abstract. A handler answers 500 from its \<open>catch\<close> when an
  awaited storage call throws.
\<close>

datatype body =
    JsonError string
  | JsonZodError
  | JsonProject ArchitectureProject
  | JsonValidations "ValidationResult list"
  | JsonDockerfile string
  | JsonManifest string

type_synonym response = "nat \<times> body"

definition postProject ::
  "database \<Rightarrow> InsertProject \<Rightarrow> string \<Rightarrow> string \<Rightarrow> database \<times> response" where
  "postProject db reqBody uuid now =
     (if \<not> insertProjectSchema_ok reqBody then (db, (400, JsonZodError))
      else
        (case createProject db reqBody uuid now of
           (db', Threw) \<Rightarrow> (db', (500, JsonError ''Failed to create project''))
         | (db', Returned project) \<Rightarrow> (db', (201, JsonProject project))))"

definition patchProject ::
  "database \<Rightarrow> string \<Rightarrow> PatchBody \<Rightarrow> string \<Rightarrow> database \<times> response" where
  "patchProject db i reqBody now =
     (case updateProject db i reqBody now of
        (db', Threw) \<Rightarrow> (db', (500, JsonError ''Failed to update project''))
      | (db', Returned None) \<Rightarrow> (db', (404, JsonError ''Project not found''))
      | (db', Returned (Some project)) \<Rightarrow> (db', (200, JsonProject project)))"

section \<open>Validation endpoint\<close>

text \<open>
  \<open>generateId\<close> draws on the clock and on \<open>Math.random\<close>; \<open>gen k\<close> is the identifier
  it returns at its \<open>k\<close>-th call within one request. Each \<open>validations.push\<close> calls it
  once, so the result pushed onto a list of length \<open>k\<close> gets \<open>gen k\<close>.
\<close>

definition push ::
  "(nat \<Rightarrow> string) \<Rightarrow> ValidationResult list \<Rightarrow> string \<Rightarrow> string \<Rightarrow> string \<Rightarrow> string
     \<Rightarrow> string option \<Rightarrow> ValidationResult list" where
  "push gen validations ph cat st msg det =
     validations @
       [\<lparr>v_id = gen (length validations), v_phase = ph, v_category = cat, v_status = st,
         v_message = msg, v_details = det\<rparr>]"

text \<open>The inner loop of the circular-dependency check, over one service's dependencies.\<close>

fun scanDeps ::
  "(nat \<Rightarrow> string) \<Rightarrow> string \<Rightarrow> string list \<Rightarrow> string set \<times> ValidationResult list
     \<Rightarrow> string set \<times> ValidationResult list" where
  "scanDeps gen name [] st = st"
| "scanDeps gen name (dep # deps) (dependencies, validations) =
     (let key = name @ ''->'' @ dep;
          reverse = dep @ ''->'' @ name;
          validations' =
            (if reverse \<in> dependencies
             then push gen validations ''A'' ''Dependencies'' ''error''
                    (''Circular dependency detected: '' @ name @ '' <-> '' @ dep)
                    (Some ''Consider using async communication or event-driven patterns'')
             else validations)
      in scanDeps gen name deps (insert key dependencies, validations'))"

fun scanServices ::
  "(nat \<Rightarrow> string) \<Rightarrow> Service list \<Rightarrow> string set \<times> ValidationResult list
     \<Rightarrow> string set \<times> ValidationResult list" where
  "scanServices gen [] st = st"
| "scanServices gen (service # rest) st =
     scanServices gen rest (scanDeps gen (svc_name service) (svc_dependencies service) st)"

definition validatePhaseA :: "(nat \<Rightarrow> string) \<Rightarrow> ArchitectureProject \<Rightarrow> ValidationResult list" where
  "validatePhaseA gen project =
     (let v1 =
        (if length (p_services project) = 0
         then push gen [] ''A'' ''Services'' ''failed'' ''No services defined''
                (Some ''Add at least one microservice to proceed'')
         else push gen [] ''A'' ''Services'' ''passed''
                (showNat (length (p_services project)) @ '' services defined'') None);
          v2 =
        (if length (p_boundedContexts project) = 0
         then push gen v1 ''A'' ''Bounded Contexts'' ''warning'' ''No bounded contexts defined''
                (Some ''Consider grouping services into bounded contexts for better organization'')
         else push gen v1 ''A'' ''Bounded Contexts'' ''passed''
                (showNat (length (p_boundedContexts project)) @ '' bounded contexts defined'')
                None);
          orphanServices = filter (\<lambda>s. svc_boundedContext s = []) (p_services project);
          v3 =
        (if length orphanServices > 0
         then push gen v2 ''A'' ''Service Assignment'' ''warning''
                (showNat (length orphanServices) @ '' services not assigned to a bounded context'')
                (Some ''Assign services to bounded contexts for better domain organization'')
         else v2)
      in snd (scanServices gen (p_services project) ({}, v3)))"

text \<open>The two locals that open the phase-B case.\<close>

definition configuredServices :: "ArchitectureProject \<Rightarrow> string set" where
  "configuredServices project = set (map cc_serviceId (p_containerConfigs project))"

definition unconfigured :: "ArchitectureProject \<Rightarrow> Service list" where
  "unconfigured project =
     filter (\<lambda>s. svc_id s \<notin> configuredServices project) (p_services project)"

definition validatePhaseB :: "(nat \<Rightarrow> string) \<Rightarrow> ArchitectureProject \<Rightarrow> ValidationResult list" where
  "validatePhaseB gen project =
     (let v1 =
        (if length (unconfigured project) > 0
         then push gen [] ''B'' ''Configuration''
                (if length (unconfigured project) = length (p_services project)
                 then ''failed'' else ''warning'')
                (showNat (length (unconfigured project)) @ '' services not containerized'')
                (Some (''Configure containers for: ''
                         @ join '', '' (map svc_name (unconfigured project))))
         else if length (p_containerConfigs project) > 0
         then push gen [] ''B'' ''Configuration'' ''passed''
                ''All services have container configurations'' None
         else []);
          singleStage =
            filter (\<lambda>c. cc_buildType c = ''single-stage'') (p_containerConfigs project);
          v2 =
        (if length singleStage > 0
         then push gen v1 ''B'' ''Build Optimization'' ''info''
                (showNat (length singleStage) @ '' services using single-stage builds'')
                (Some ''Consider multi-stage builds for smaller production images'')
         else v1);
          noHealthCheck = filter (\<lambda>c. cc_healthCheck c = None) (p_containerConfigs project)
      in (if length noHealthCheck > 0
          then push gen v2 ''B'' ''Health Checks'' ''warning''
                 (showNat (length noHealthCheck) @ '' containers without health checks'')
                 (Some ''Add health checks for better Kubernetes integration'')
          else v2))"

definition validatePhaseC :: "(nat \<Rightarrow> string) \<Rightarrow> ArchitectureProject \<Rightarrow> ValidationResult list" where
  "validatePhaseC gen project =
     (let v1 =
        (if length (p_k8sManifests project) = 0
         then push gen [] ''C'' ''Manifests'' ''failed'' ''No Kubernetes manifests defined''
                (Some ''Generate deployment manifests to proceed'')
         else push gen [] ''C'' ''Manifests'' ''passed''
                (showNat (length (p_k8sManifests project)) @ '' Kubernetes manifests configured'')
                None);
          v2 =
        (if length (p_sloDefinitions project) = 0
         then push gen v1 ''C'' ''SLOs'' ''warning'' ''No SLOs defined''
                (Some ''Define service level objectives to track reliability'')
         else v1)
      in (if length (p_autoscalingStrategies project) = 0
          then push gen v2 ''C'' ''Autoscaling'' ''info'' ''No autoscaling configured''
                 (Some ''Consider adding autoscaling for dynamic workloads'')
          else v2))"

definition validatePhaseD :: "(nat \<Rightarrow> string) \<Rightarrow> ArchitectureProject \<Rightarrow> ValidationResult list" where
  "validatePhaseD gen project =
     (let v1 =
        (if length (p_resiliencePatterns project) = 0
         then push gen [] ''D'' ''Resilience'' ''warning'' ''No resilience patterns configured''
                (Some ''Add circuit breakers and retries for fault tolerance'')
         else push gen [] ''D'' ''Resilience'' ''passed''
                (showNat (length (p_resiliencePatterns project))
                   @ '' resilience patterns configured'')
                None)
      in (if length (p_observabilityConfigs project) = 0
          then push gen v1 ''D'' ''Observability'' ''warning'' ''No observability configured''
                 (Some ''Add metrics, logging, and tracing for operational visibility'')
          else push gen v1 ''D'' ''Observability'' ''passed''
                 (showNat (length (p_observabilityConfigs project))
                    @ '' observability configurations'')
                 None))"

text \<open>
  The handler of \<open>POST /api/validate\<close>. The request body may lack \<open>project\<close> or
  \<open>phase\<close>; the \<open>switch\<close> over the phase has four cases and no default.
\<close>

definition validate ::
  "(nat \<Rightarrow> string) \<Rightarrow> ArchitectureProject option \<Rightarrow> string option \<Rightarrow> response" where
  "validate gen project phase =
     (case project of
        None \<Rightarrow> (400, JsonError ''Project data is required'')
      | Some p \<Rightarrow>
          (200, JsonValidations
             (if phase = Some ''A'' then validatePhaseA gen p
              else if phase = Some ''B'' then validatePhaseB gen p
              else if phase = Some ''C'' then validatePhaseC gen p
              else if phase = Some ''D'' then validatePhaseD gen p
              else [])))"

section \<open>Template generators\<close>

text \<open>
  A template literal is rendered as the list of its text lines, joined by the newline
  character. An interpolation that stands alone on a template line contributes its own
  lines, or one empty line when it renders the empty string.
\<close>

definition NL :: string where
  "NL = [CHR 0x0A]"

definition orBlank :: "string list \<Rightarrow> string list" where
  "orBlank ls = (if ls = [] then [[]] else ls)"

subsection \<open>Dockerfile\<close>

definition envLine :: "EnvVar \<Rightarrow> string" where
  \<open>envLine env =
     (if env_isSecret env
      then ''# '' @ env_key env @ '' - Set via secrets management''
      else ''ENV '' @ env_key env @ ''="'' @ env_value env @ ''"'')\<close>

definition exposeLine :: "number \<Rightarrow> string" where
  "exposeLine port = ''EXPOSE '' @ shown port"

definition healthCheckLines :: "HealthCheck option \<Rightarrow> string list" where
  "healthCheckLines h =
     (case h of
        None \<Rightarrow> [[]]
      | Some hc \<Rightarrow>
          [''HEALTHCHECK --interval='' @ shown (hc_intervalSeconds hc) @ ''s '' @ [CHR 0x5C],
           ''  CMD wget --quiet --tries=1 --spider http://localhost:''
             @ shown (hc_port hc) @ hc_path hc @ '' || exit 1''])"

text \<open>\<open>containerConfig.baseImage || "node:20-alpine"\<close>\<close>

definition baseImageOf :: "ContainerConfig \<Rightarrow> string" where
  "baseImageOf containerConfig =
     (if cc_baseImage containerConfig = [] then ''node:20-alpine''
      else cc_baseImage containerConfig)"

text \<open>The image of stage 2: two chained first-occurrence replacements.\<close>

definition productionImage :: "string \<Rightarrow> string" where
  "productionImage baseImage =
     replace ''-slim'' ''-alpine'' (replace ''-alpine'' ''-slim'' baseImage)"

definition dockerfileLines :: "ContainerConfig \<Rightarrow> string \<Rightarrow> string list" where
  \<open>dockerfileLines containerConfig serviceName =
     (let baseImage = baseImageOf containerConfig in
      if cc_buildType containerConfig = ''multi-stage''
      then
        [''# Multi-stage build for '' @ serviceName,
         ''# Stage 1: Build'',
         ''FROM '' @ baseImage @ '' AS builder'',
         ''WORKDIR /app'',
         ''COPY package*.json ./'',
         ''RUN npm ci --only=production'',
         ''COPY . .'',
         ''RUN npm run build'',
         [],
         ''# Stage 2: Production'',
         ''FROM '' @ productionImage baseImage,
         ''WORKDIR /app'',
         ''COPY --from=builder /app/dist ./dist'',
         ''COPY --from=builder /app/node_modules ./node_modules'',
         ''COPY package*.json ./'',
         []]
        @ orBlank (map envLine (cc_environmentVariables containerConfig))
        @ [[]]
        @ orBlank (map exposeLine (cc_exposedPorts containerConfig))
        @ [[]]
        @ healthCheckLines (cc_healthCheck containerConfig)
        @ [[],
           ''USER node'',
           ''CMD ["node", "dist/index.js"]'']
      else
        [''# Single-stage build for '' @ serviceName,
         ''FROM '' @ baseImage,
         ''WORKDIR /app'',
         [],
         ''COPY package*.json ./'',
         ''RUN npm ci --only=production'',
         [],
         ''COPY . .'',
         []]
        @ orBlank (map envLine (cc_environmentVariables containerConfig))
        @ [[]]
        @ orBlank (map exposeLine (cc_exposedPorts containerConfig))
        @ [[]]
        @ healthCheckLines (cc_healthCheck containerConfig)
        @ [[],
           ''USER node'',
           ''CMD ["node", "index.js"]''])\<close>

definition dockerfileText :: "ContainerConfig \<Rightarrow> string \<Rightarrow> string" where
  "dockerfileText containerConfig serviceName =
     join NL (dockerfileLines containerConfig serviceName)"

text \<open>
  The handler of \<open>POST /api/generate/dockerfile\<close>; a missing config and a missing or
  empty service name are rejected.
\<close>

definition generateDockerfile :: "ContainerConfig option \<Rightarrow> string \<Rightarrow> response" where
  "generateDockerfile containerConfig serviceName =
     (case containerConfig of
        None \<Rightarrow> (400, JsonError ''Container config and service name are required'')
      | Some c \<Rightarrow>
          if serviceName = []
          then (400, JsonError ''Container config and service name are required'')
          else (200, JsonDockerfile (dockerfileText c serviceName)))"

subsection \<open>Kubernetes manifest\<close>

text \<open>
  \<open>{ ...labels, app: name }\<close>: an existing key keeps its place and takes the new value,
  a new key goes last.
\<close>

fun setKey :: "string \<Rightarrow> string \<Rightarrow> (string \<times> string) list \<Rightarrow> (string \<times> string) list" where
  "setKey k v [] = [(k, v)]"
| "setKey k v ((k', v') # rest) =
     (if k' = k then (k, v) # rest else (k', v') # setKey k v rest)"

definition labelLine :: "string \<times> string \<Rightarrow> string" where
  \<open>labelLine kv = ''    '' @ fst kv @ '': "'' @ snd kv @ ''"''\<close>

text \<open>\<open>containerConfig?.exposedPorts?.[0] || 3000\<close>\<close>

definition containerPort :: "ContainerConfig option \<Rightarrow> number" where
  "containerPort containerConfig =
     (case containerConfig of
        None \<Rightarrow> Number ''3000''
      | Some c \<Rightarrow>
          (case cc_exposedPorts c of
             [] \<Rightarrow> Number ''3000''
           | port # _ \<Rightarrow> if falsy port then Number ''3000'' else port))"

text \<open>\<open>containerConfig?.resourceLimits?.field || fallback\<close>\<close>

definition resourceOr ::
  "ContainerConfig option \<Rightarrow> (ResourceLimits \<Rightarrow> string) \<Rightarrow> string \<Rightarrow> string" where
  "resourceOr containerConfig field fallback =
     (case containerConfig of
        None \<Rightarrow> fallback
      | Some c \<Rightarrow>
          (case cc_resourceLimits c of
             None \<Rightarrow> fallback
           | Some r \<Rightarrow> if field r = [] then fallback else field r))"

text \<open>\<open>containerConfig?.healthCheck\<close>\<close>

definition healthCheckOf :: "ContainerConfig option \<Rightarrow> HealthCheck option" where
  "healthCheckOf containerConfig =
     (case containerConfig of None \<Rightarrow> None | Some c \<Rightarrow> cc_healthCheck c)"

definition probeLines :: "HealthCheck option \<Rightarrow> string list" where
  "probeLines h =
     (case h of
        None \<Rightarrow> [[]]
      | Some hc \<Rightarrow>
          [''        livenessProbe:'',
           ''          httpGet:'',
           ''            path: '' @ hc_path hc,
           ''            port: '' @ shown (hc_port hc),
           ''          initialDelaySeconds: 15'',
           ''          periodSeconds: '' @ shown (hc_intervalSeconds hc),
           ''        readinessProbe:'',
           ''          httpGet:'',
           ''            path: '' @ hc_path hc,
           ''            port: '' @ shown (hc_port hc),
           ''          initialDelaySeconds: 5'',
           ''          periodSeconds: 10''])"

definition rollingUpdateLines :: "K8sManifest \<Rightarrow> string list" where
  "rollingUpdateLines manifest =
     (if km_deploymentStrategy manifest = ''RollingUpdate''
      then [''    rollingUpdate:'',
            ''      maxSurge: 25%'',
            ''      maxUnavailable: 25%'']
      else [[]])"

definition mergedLabels ::
  "(string \<Rightarrow> string) \<Rightarrow> K8sManifest \<Rightarrow> string \<Rightarrow> (string \<times> string) list" where
  "mergedLabels toLowerCase manifest serviceName =
     setKey ''app'' (toLowerCase serviceName) (km_labels manifest)"

definition namespaceOf :: "K8sManifest \<Rightarrow> string" where
  "namespaceOf manifest =
     (if km_namespace manifest = [] then ''default'' else km_namespace manifest)"

definition replicasOf :: "K8sManifest \<Rightarrow> number" where
  "replicasOf manifest =
     (if falsy (km_replicas manifest) then Number ''3'' else km_replicas manifest)"

definition strategyOf :: "K8sManifest \<Rightarrow> string" where
  "strategyOf manifest =
     (if km_deploymentStrategy manifest = [] then ''RollingUpdate''
      else km_deploymentStrategy manifest)"

text \<open>
  The template in three parts: the Deployment document down to its resource limits, the
  probe interpolation, and the separator with the Service document.
\<close>

definition workloadLines ::
  "(string \<Rightarrow> string) \<Rightarrow> K8sManifest \<Rightarrow> string \<Rightarrow> ContainerConfig option \<Rightarrow> string list" where
  "workloadLines toLowerCase manifest serviceName containerConfig =
     (let lname = toLowerCase serviceName in
      [''apiVersion: apps/v1'',
       ''kind: Deployment'',
       ''metadata:'',
       ''  name: '' @ lname,
       ''  namespace: '' @ namespaceOf manifest,
       ''  labels:'']
      @ map labelLine (mergedLabels toLowerCase manifest serviceName)
      @ [''spec:'',
         ''  replicas: '' @ shown (replicasOf manifest),
         ''  selector:'',
         ''    matchLabels:'',
         ''      app: '' @ lname,
         ''  strategy:'',
         ''    type: '' @ strategyOf manifest]
      @ rollingUpdateLines manifest
      @ [''  template:'',
         ''    metadata:'',
         ''      labels:'',
         ''        app: '' @ lname,
         ''    spec:'',
         ''      containers:'',
         ''      - name: '' @ lname,
         ''        image: '' @ lname @ '':latest'',
         ''        ports:'',
         ''        - containerPort: '' @ shown (containerPort containerConfig),
         ''        resources:'',
         ''          requests:'',
         ''            cpu: '' @ resourceOr containerConfig rl_cpuRequest ''100m'',
         ''            memory: '' @ resourceOr containerConfig rl_memoryRequest ''128Mi'',
         ''          limits:'',
         ''            cpu: '' @ resourceOr containerConfig rl_cpuLimit ''500m'',
         ''            memory: '' @ resourceOr containerConfig rl_memoryLimit ''512Mi''])"

definition exposureLines ::
  "(string \<Rightarrow> string) \<Rightarrow> K8sManifest \<Rightarrow> string \<Rightarrow> ContainerConfig option \<Rightarrow> string list" where
  "exposureLines toLowerCase manifest serviceName containerConfig =
     (let lname = toLowerCase serviceName in
      [''---'',
       ''apiVersion: v1'',
       ''kind: Service'',
       ''metadata:'',
       ''  name: '' @ lname @ ''-svc'',
       ''  namespace: '' @ namespaceOf manifest,
       ''spec:'',
       ''  selector:'',
       ''    app: '' @ lname,
       ''  ports:'',
       ''  - port: 80'',
       ''    targetPort: '' @ shown (containerPort containerConfig),
       ''  type: ClusterIP''])"

definition k8sLines ::
  "(string \<Rightarrow> string) \<Rightarrow> K8sManifest \<Rightarrow> string \<Rightarrow> ContainerConfig option \<Rightarrow> string list" where
  "k8sLines toLowerCase manifest serviceName containerConfig =
     workloadLines toLowerCase manifest serviceName containerConfig
     @ probeLines (healthCheckOf containerConfig)
     @ exposureLines toLowerCase manifest serviceName containerConfig"

definition k8sText ::
  "(string \<Rightarrow> string) \<Rightarrow> K8sManifest \<Rightarrow> string \<Rightarrow> ContainerConfig option \<Rightarrow> string" where
  "k8sText toLowerCase manifest serviceName containerConfig =
     join NL (k8sLines toLowerCase manifest serviceName containerConfig)"

definition generateK8sManifest ::
  "(string \<Rightarrow> string) \<Rightarrow> K8sManifest option \<Rightarrow> string \<Rightarrow> ContainerConfig option \<Rightarrow> response" where
  "generateK8sManifest toLowerCase manifest serviceName containerConfig =
     (case manifest of
        None \<Rightarrow> (400, JsonError ''Manifest and service name are required'')
      | Some m \<Rightarrow>
          if serviceName = []
          then (400, JsonError ''Manifest and service name are required'')
          else (200, JsonManifest (k8sText toLowerCase m serviceName containerConfig)))"

section \<open>Notions used to state the probe property\<close>

text \<open>
  The lines of a text, as \<open>text.split("\n")\<close> gives them; a string that stays on one
  line; the inputs of the manifest generator whose interpolated strings and number
  renderings all stay on one line.
\<close>

fun splitLines :: "string \<Rightarrow> string list" where
  "splitLines [] = [[]]"
| "splitLines (c # cs) =
     (if c = CHR 0x0A then [] # splitLines cs
      else (case splitLines cs of [] \<Rightarrow> [[c]] | l # ls \<Rightarrow> (c # l) # ls))"

definition singleLine :: "string \<Rightarrow> bool" where
  "singleLine s = (CHR 0x0A \<notin> set s)"

definition singleLineInputs ::
  "(string \<Rightarrow> string) \<Rightarrow> K8sManifest \<Rightarrow> string \<Rightarrow> ContainerConfig option \<Rightarrow> bool" where
  "singleLineInputs toLowerCase manifest serviceName containerConfig =
     (singleLine (toLowerCase serviceName)
      \<and> singleLine (km_namespace manifest)
      \<and> singleLine (km_deploymentStrategy manifest)
      \<and> singleLine (shown (km_replicas manifest))
      \<and> list_all (\<lambda>kv. singleLine (fst kv) \<and> singleLine (snd kv)) (km_labels manifest)
      \<and> (case containerConfig of
            None \<Rightarrow> True
          | Some c \<Rightarrow>
              list_all (\<lambda>port. singleLine (shown port)) (take 1 (cc_exposedPorts c))
              \<and> (case cc_resourceLimits c of
                    None \<Rightarrow> True
                  | Some r \<Rightarrow>
                      singleLine (rl_cpuRequest r) \<and> singleLine (rl_memoryRequest r)
                      \<and> singleLine (rl_cpuLimit r) \<and> singleLine (rl_memoryLimit r))
              \<and> (case cc_healthCheck c of
                    None \<Rightarrow> True
                  | Some hc \<Rightarrow>
                      singleLine (hc_path hc) \<and> singleLine (shown (hc_port hc))
                      \<and> singleLine (shown (hc_intervalSeconds hc)))))"

text \<open>
  A probe block of the manifest opens with one of the two probe keys, at the indentation
  of the container's fields.
\<close>

definition isProbeHeader :: "string \<Rightarrow> bool" where
  "isProbeHeader l = (l = ''        livenessProbe:'' \<or> l = ''        readinessProbe:'')"

section \<open>Notion used to state the secret-value property\<close>

text \<open>
  The config with the value of every secret entry replaced by \<open>f\<close> of the entry; used
  to state that the Dockerfile does not depend on secret values.
\<close>

definition withSecretValues :: "(EnvVar \<Rightarrow> string) \<Rightarrow> ContainerConfig \<Rightarrow> ContainerConfig" where
  "withSecretValues f containerConfig =
     containerConfig\<lparr>cc_environmentVariables :=
       map (\<lambda>env. if env_isSecret env then env\<lparr>env_value := f env\<rparr> else env)
         (cc_environmentVariables containerConfig)\<rparr>"

section \<open>Notions used to state the circular-dependency property\<close>

text \<open>
  The edges of a project in the order the two nested loops visit them, each a pair of
  the service's name and one of its dependency names; the key string the scan stores
  for an edge; the message of an error result.
\<close>

definition edgesOf :: "Service list \<Rightarrow> (string \<times> string) list" where
  "edgesOf services =
     concat (map (\<lambda>service. map (Pair (svc_name service)) (svc_dependencies service)) services)"

definition edgeKey :: "string \<times> string \<Rightarrow> string" where
  "edgeKey e = fst e @ ''->'' @ snd e"

definition circularMessage :: "string \<times> string \<Rightarrow> string" where
  "circularMessage e = ''Circular dependency detected: '' @ fst e @ '' <-> '' @ snd e"

text \<open>
  The edges whose reverse edge occurs earlier in the list, in order and with
  repetitions; the results of status \<open>error\<close>.
\<close>

definition reverseSeen :: "(string \<times> string) list \<Rightarrow> (string \<times> string) list" where
  "reverseSeen es =
     map (\<lambda>k. es ! k)
       (filter (\<lambda>k. prod.swap (es ! k) \<in> set (take k es)) [0..<length es])"

definition isError :: "ValidationResult \<Rightarrow> bool" where
  "isError v = (v_status v = ''error'')"

text \<open>
  A name is free of the separator when \<open>->\<close> does not occur in it; an edge is clean
  when both its names are.
\<close>

definition arrowFree :: "string \<Rightarrow> bool" where
  "arrowFree s = (\<not> sublist ''->'' s)"

definition cleanEdge :: "string \<times> string \<Rightarrow> bool" where
  "cleanEdge e = (arrowFree (fst e) \<and> arrowFree (snd e))"

text \<open>
  Two auxiliary functions for the proofs: the scan as one loop over the edge list, and
  the edges for which it pushes a result, given the keys stored so far.
\<close>

fun scanEdges ::
  "(nat \<Rightarrow> string) \<Rightarrow> (string \<times> string) list \<Rightarrow> string set \<times> ValidationResult list
     \<Rightarrow> string set \<times> ValidationResult list" where
  "scanEdges gen [] st = st"
| "scanEdges gen (e # es) (D, vs) =
     scanEdges gen es
       (insert (edgeKey e) D,
        if edgeKey (prod.swap e) \<in> D
        then push gen vs ''A'' ''Dependencies'' ''error'' (circularMessage e)
               (Some ''Consider using async communication or event-driven patterns'')
        else vs)"

fun reported :: "string set \<Rightarrow> (string \<times> string) list \<Rightarrow> (string \<times> string) list" where
  "reported D [] = []"
| "reported D (e # es) =
     (if edgeKey (prod.swap e) \<in> D then [e] else []) @ reported (insert (edgeKey e) D) es"

section \<open>Example values\<close>

definition exampleService :: Service where
  "exampleService =
     \<lparr>svc_id = ''s1'', svc_name = ''Orders'', svc_description = ''Order intake'',
      svc_boundedContext = ''Sales'', svc_responsibilities = [''accept orders''],
      svc_dependencies = [], svc_communicationType = Sync, svc_dataOwnership = [''orders'']\<rparr>"

definition emptyProject :: ArchitectureProject where
  "emptyProject =
     \<lparr>p_id = ''p1'', p_name = ''Shop'', p_description = [], p_currentPhase = ''A'',
      p_boundedContexts = [], p_services = [], p_containerConfigs = [],
      p_sloDefinitions = [], p_autoscalingStrategies = [], p_k8sManifests = [],
      p_resiliencePatterns = [], p_observabilityConfigs = [],
      p_createdAt = ''2024-01-01T00:00:00.000Z'', p_updatedAt = ''2024-01-01T00:00:00.000Z''\<rparr>"

definition oneServiceProject :: ArchitectureProject where
  "oneServiceProject = emptyProject\<lparr>p_services := [exampleService]\<rparr>"

definition secondService :: Service where
  "secondService = exampleService\<lparr>svc_id := ''s2'', svc_name := ''Billing''\<rparr>"

definition exampleHealthCheck :: HealthCheck where
  "exampleHealthCheck =
     \<lparr>hc_path = ''/health'', hc_port = Number ''8080'', hc_intervalSeconds = Number ''30''\<rparr>"

definition exampleConfig :: ContainerConfig where
  "exampleConfig =
     \<lparr>cc_id = ''c1'', cc_serviceId = ''s1'', cc_baseImage = ''node:20-alpine'',
      cc_buildType = ''multi-stage'', cc_exposedPorts = [Number ''8080''],
      cc_environmentVariables =
        [\<lparr>env_key = ''PORT'', env_value = ''8080'', env_isSecret = False\<rparr>,
         \<lparr>env_key = ''TOKEN'', env_value = ''node'', env_isSecret = True\<rparr>],
      cc_healthCheck = Some exampleHealthCheck,
      cc_resourceLimits = None\<rparr>"

definition configuredProject :: ArchitectureProject where
  "configuredProject = oneServiceProject\<lparr>p_containerConfigs := [exampleConfig]\<rparr>"

definition partlyConfiguredProject :: ArchitectureProject where
  "partlyConfiguredProject = configuredProject\<lparr>p_services := [exampleService, secondService]\<rparr>"

definition exampleRow :: DbProject where
  "exampleRow =
     \<lparr>row_id = ''p1'', row_name = ''Shop'', row_description = Some ''A web shop'',
      row_currentPhase = ''B'', row_boundedContexts = [], row_services = [exampleService],
      row_containerConfigs = [], row_sloDefinitions = [], row_autoscalingStrategies = [],
      row_k8sManifests = [], row_resiliencePatterns = [], row_observabilityConfigs = [],
      row_createdAt = ''2024-01-01T00:00:00.000Z'', row_updatedAt = ''2024-01-02T00:00:00.000Z''\<rparr>"

definition exampleDb :: database where
  "exampleDb = \<lparr>db_rows = [''p1'' \<mapsto> exampleRow], db_fails = (\<lambda>statement. False)\<rparr>"

definition emptyBody :: PatchBody where
  "emptyBody =
     \<lparr>b_name = Absent, b_description = Absent, b_currentPhase = Absent,
      b_boundedContexts = Absent, b_services = Absent, b_containerConfigs = Absent,
      b_sloDefinitions = Absent, b_autoscalingStrategies = Absent, b_k8sManifests = Absent,
      b_resiliencePatterns = Absent, b_observabilityConfigs = Absent\<rparr>"

definition renameOnly :: PatchBody where
  "renameOnly = emptyBody\<lparr>b_name := Value ''Store''\<rparr>"

definition longPhase :: PatchBody where
  "longPhase = emptyBody\<lparr>b_currentPhase := Value ''XY''\<rparr>"

definition unprobedConfig :: ContainerConfig where
  "unprobedConfig = exampleConfig\<lparr>cc_healthCheck := None\<rparr>"

definition exampleManifest :: K8sManifest where
  "exampleManifest =
     \<lparr>km_id = ''m1'', km_serviceId = ''s1'', km_deploymentStrategy = ''RollingUpdate'',
      km_replicas = Number ''2'', km_namespace = ''shop'', km_labels = [(''tier'', ''backend'')],
      km_annotations = None\<rparr>"

definition falsyManifest :: K8sManifest where
  "falsyManifest =
     exampleManifest\<lparr>km_deploymentStrategy := [], km_replicas := Number ''0'',
       km_namespace := []\<rparr>"

definition serviceX :: Service where
  "serviceX = exampleService\<lparr>svc_id := ''x'', svc_name := ''X'', svc_dependencies := [''Y'']\<rparr>"

definition serviceY :: Service where
  "serviceY = exampleService\<lparr>svc_id := ''y'', svc_name := ''Y'', svc_dependencies := [''X'']\<rparr>"

definition circularProject :: ArchitectureProject where
  "circularProject = emptyProject\<lparr>p_services := [serviceX, serviceY]\<rparr>"

definition collidingProject :: ArchitectureProject where
  "collidingProject =
     emptyProject\<lparr>p_services :=
       [exampleService\<lparr>svc_id := ''1'', svc_name := ''c->a'', svc_dependencies := [''b'']\<rparr>,
        exampleService\<lparr>svc_id := ''2'', svc_name := ''a->b'', svc_dependencies := [''c'']\<rparr>]\<rparr>"

section \<open>Phase gate\<close>

lemmas store_defs =
  updateProjectLocal_def spread_def noUpdates_def orEmpty_def

text \<open>
  C3. For a loaded project the gate is open for phase A, open for B, C and D exactly
  when the services, the container configs and the Kubernetes manifests are non-empty,
  and closed for every other token. From a project without services, B is closed, opens
  after one \<open>addService\<close> and closes again after \<open>removeService\<close> of that service,
  whether the remove is issued after the next render or still from the render in which
  the service was added.
\<close>

theorem canAdvanceToPhase_gate:
  "canAdvanceToPhase (Some p) ''A''
   \<and> (canAdvanceToPhase (Some p) ''B'' \<longleftrightarrow> p_services p \<noteq> [])
   \<and> (canAdvanceToPhase (Some p) ''C'' \<longleftrightarrow> p_containerConfigs p \<noteq> [])
   \<and> (canAdvanceToPhase (Some p) ''D'' \<longleftrightarrow> p_k8sManifests p \<noteq> [])
   \<and> (ph \<notin> {''A'', ''B'', ''C'', ''D''} \<longrightarrow> \<not> canAdvanceToPhase (Some p) ph)
   \<and> (p_services p = [] \<longrightarrow>
        \<not> canAdvanceToPhase (Some p) ''B''
        \<and> canAdvanceToPhase (addService s t1 (Some p) (Some p)) ''B''
        \<and> \<not> canAdvanceToPhase
              (removeService (svc_id s) t2
                 (addService s t1 (Some p) (Some p)) (addService s t1 (Some p) (Some p))) ''B''
        \<and> \<not> canAdvanceToPhase
              (removeService (svc_id s) t2 (Some p) (addService s t1 (Some p) (Some p))) ''B'')"
  by (simp add: canAdvanceToPhase_def addService_def removeService_def store_defs)

theorem canAdvanceToPhase_gate_witness:
  "''E'' \<notin> {''A'', ''B'', ''C'', ''D''}
   \<and> \<not> canAdvanceToPhase (Some emptyProject) ''E''
   \<and> p_services emptyProject = []
   \<and> \<not> canAdvanceToPhase (Some emptyProject) ''B''
   \<and> canAdvanceToPhase
        (addService exampleService ''t1'' (Some emptyProject) (Some emptyProject)) ''B''
   \<and> \<not> canAdvanceToPhase
         (removeService ''s1'' ''t2''
            (addService exampleService ''t1'' (Some emptyProject) (Some emptyProject))
            (addService exampleService ''t1'' (Some emptyProject) (Some emptyProject))) ''B''
   \<and> \<not> canAdvanceToPhase
         (removeService ''s1'' ''t2'' (Some emptyProject)
            (addService exampleService ''t1'' (Some emptyProject) (Some emptyProject))) ''B''"
  using canAdvanceToPhase_gate [of emptyProject "''E''" exampleService "''t1''" "''t2''"]
  by (simp add: emptyProject_def exampleService_def)

section \<open>Project store: removing an absent id\<close>

lemma filter_absent_id: "i \<notin> set (map f xs) \<Longrightarrow> filter (\<lambda>x. f x \<noteq> i) xs = xs"
  by (induction xs) auto

lemmas remove_defs =
  removeBoundedContext_def removeService_def removeContainerConfig_def removeSLO_def
  removeAutoscaling_def removeK8sManifest_def removeResiliencePattern_def
  removeObservabilityConfig_def

text \<open>
  What a remove stores, for any project \<open>c\<close> read by the callback and any state \<open>p\<close>:
  the state with the collection replaced by the callback's collection without the id.
\<close>

lemma remove_result:
  "removeBoundedContext i now (Some c) (Some p)
     = Some (p\<lparr>p_boundedContexts := filter (\<lambda>x. bc_id x \<noteq> i) (p_boundedContexts c), p_updatedAt := now\<rparr>)"
  "removeService i now (Some c) (Some p)
     = Some (p\<lparr>p_services := filter (\<lambda>x. svc_id x \<noteq> i) (p_services c), p_updatedAt := now\<rparr>)"
  "removeContainerConfig i now (Some c) (Some p)
     = Some (p\<lparr>p_containerConfigs := filter (\<lambda>x. cc_id x \<noteq> i) (p_containerConfigs c), p_updatedAt := now\<rparr>)"
  "removeSLO i now (Some c) (Some p)
     = Some (p\<lparr>p_sloDefinitions := filter (\<lambda>x. slo_id x \<noteq> i) (p_sloDefinitions c), p_updatedAt := now\<rparr>)"
  "removeAutoscaling i now (Some c) (Some p)
     = Some (p\<lparr>p_autoscalingStrategies := filter (\<lambda>x. as_id x \<noteq> i) (p_autoscalingStrategies c), p_updatedAt := now\<rparr>)"
  "removeK8sManifest i now (Some c) (Some p)
     = Some (p\<lparr>p_k8sManifests := filter (\<lambda>x. km_id x \<noteq> i) (p_k8sManifests c), p_updatedAt := now\<rparr>)"
  "removeResiliencePattern i now (Some c) (Some p)
     = Some (p\<lparr>p_resiliencePatterns := filter (\<lambda>x. rp_id x \<noteq> i) (p_resiliencePatterns c), p_updatedAt := now\<rparr>)"
  "removeObservabilityConfig i now (Some c) (Some p)
     = Some (p\<lparr>p_observabilityConfigs := filter (\<lambda>x. oc_id x \<noteq> i) (p_observabilityConfigs c), p_updatedAt := now\<rparr>)"
  by (simp_all add: remove_defs store_defs)

text \<open>
  C7. In each of the eight collections, removing an id that no element carries returns
  the project with only \<open>updatedAt\<close> changed: name, description, phase and all eight
  collections are the input's. The project \<open>c\<close> that the callback reads has the
  collection of the state \<open>p\<close>; this is so whenever the callback is the one of the
  current render, where \<open>c\<close> is \<open>p\<close>.
\<close>

theorem remove_absent_id_noop:
  "(p_boundedContexts c = p_boundedContexts p \<and> i \<notin> set (map bc_id (p_boundedContexts p)) \<longrightarrow>
      removeBoundedContext i now (Some c) (Some p) = Some (p\<lparr>p_updatedAt := now\<rparr>))
   \<and> (p_services c = p_services p \<and> i \<notin> set (map svc_id (p_services p)) \<longrightarrow>
      removeService i now (Some c) (Some p) = Some (p\<lparr>p_updatedAt := now\<rparr>))
   \<and> (p_containerConfigs c = p_containerConfigs p \<and> i \<notin> set (map cc_id (p_containerConfigs p)) \<longrightarrow>
      removeContainerConfig i now (Some c) (Some p) = Some (p\<lparr>p_updatedAt := now\<rparr>))
   \<and> (p_sloDefinitions c = p_sloDefinitions p \<and> i \<notin> set (map slo_id (p_sloDefinitions p)) \<longrightarrow>
      removeSLO i now (Some c) (Some p) = Some (p\<lparr>p_updatedAt := now\<rparr>))
   \<and> (p_autoscalingStrategies c = p_autoscalingStrategies p \<and> i \<notin> set (map as_id (p_autoscalingStrategies p)) \<longrightarrow>
      removeAutoscaling i now (Some c) (Some p) = Some (p\<lparr>p_updatedAt := now\<rparr>))
   \<and> (p_k8sManifests c = p_k8sManifests p \<and> i \<notin> set (map km_id (p_k8sManifests p)) \<longrightarrow>
      removeK8sManifest i now (Some c) (Some p) = Some (p\<lparr>p_updatedAt := now\<rparr>))
   \<and> (p_resiliencePatterns c = p_resiliencePatterns p \<and> i \<notin> set (map rp_id (p_resiliencePatterns p)) \<longrightarrow>
      removeResiliencePattern i now (Some c) (Some p) = Some (p\<lparr>p_updatedAt := now\<rparr>))
   \<and> (p_observabilityConfigs c = p_observabilityConfigs p \<and> i \<notin> set (map oc_id (p_observabilityConfigs p)) \<longrightarrow>
      removeObservabilityConfig i now (Some c) (Some p) = Some (p\<lparr>p_updatedAt := now\<rparr>))"
  by (auto simp: filter_absent_id remove_defs store_defs)

theorem remove_absent_id_noop_witness:
  "''zz'' \<notin> set (map bc_id (p_boundedContexts oneServiceProject))
   \<and> ''zz'' \<notin> set (map svc_id (p_services oneServiceProject))
   \<and> ''zz'' \<notin> set (map cc_id (p_containerConfigs oneServiceProject))
   \<and> ''zz'' \<notin> set (map slo_id (p_sloDefinitions oneServiceProject))
   \<and> ''zz'' \<notin> set (map as_id (p_autoscalingStrategies oneServiceProject))
   \<and> ''zz'' \<notin> set (map km_id (p_k8sManifests oneServiceProject))
   \<and> ''zz'' \<notin> set (map rp_id (p_resiliencePatterns oneServiceProject))
   \<and> ''zz'' \<notin> set (map oc_id (p_observabilityConfigs oneServiceProject))
   \<and> removeBoundedContext ''zz'' ''t'' (Some oneServiceProject) (Some oneServiceProject)
       = Some (oneServiceProject\<lparr>p_updatedAt := ''t''\<rparr>)
   \<and> removeService ''zz'' ''t'' (Some oneServiceProject) (Some oneServiceProject)
       = Some (oneServiceProject\<lparr>p_updatedAt := ''t''\<rparr>)
   \<and> removeContainerConfig ''zz'' ''t'' (Some oneServiceProject) (Some oneServiceProject)
       = Some (oneServiceProject\<lparr>p_updatedAt := ''t''\<rparr>)
   \<and> removeSLO ''zz'' ''t'' (Some oneServiceProject) (Some oneServiceProject)
       = Some (oneServiceProject\<lparr>p_updatedAt := ''t''\<rparr>)
   \<and> removeAutoscaling ''zz'' ''t'' (Some oneServiceProject) (Some oneServiceProject)
       = Some (oneServiceProject\<lparr>p_updatedAt := ''t''\<rparr>)
   \<and> removeK8sManifest ''zz'' ''t'' (Some oneServiceProject) (Some oneServiceProject)
       = Some (oneServiceProject\<lparr>p_updatedAt := ''t''\<rparr>)
   \<and> removeResiliencePattern ''zz'' ''t'' (Some oneServiceProject) (Some oneServiceProject)
       = Some (oneServiceProject\<lparr>p_updatedAt := ''t''\<rparr>)
   \<and> removeObservabilityConfig ''zz'' ''t'' (Some oneServiceProject) (Some oneServiceProject)
       = Some (oneServiceProject\<lparr>p_updatedAt := ''t''\<rparr>)"
  using remove_absent_id_noop [of oneServiceProject oneServiceProject "''zz''" "''t''"]
  by (simp add: oneServiceProject_def emptyProject_def exampleService_def)

section \<open>Validation endpoint: phase tokens without a case\<close>

text \<open>
  C9. With a project in the request, a phase that is none of A, B, C, D (a missing
  phase included) is answered with status 200 and an empty list of validation results.
\<close>

theorem validate_unknown_phase:
  "phase \<notin> {Some ''A'', Some ''B'', Some ''C'', Some ''D''}
     \<Longrightarrow> validate gen (Some p) phase = (200, JsonValidations [])"
  by (simp add: validate_def)

theorem validate_unknown_phase_witness:
  "None \<notin> {Some ''A'', Some ''B'', Some ''C'', Some ''D''}
   \<and> validate (\<lambda>k. showNat k) (Some oneServiceProject) None = (200, JsonValidations [])
   \<and> Some ''E'' \<notin> {Some ''A'', Some ''B'', Some ''C'', Some ''D''}
   \<and> validate (\<lambda>k. showNat k) (Some oneServiceProject) (Some ''E'') = (200, JsonValidations [])"
  using validate_unknown_phase [of None "\<lambda>k. showNat k" oneServiceProject]
    validate_unknown_phase [of "Some ''E''" "\<lambda>k. showNat k" oneServiceProject]
  by simp

section \<open>Validation endpoint: phase B, configuration rule\<close>

lemma validatePhaseB_configuration:
  "filter (\<lambda>v. v_category v = ''Configuration'') (validatePhaseB gen p) =
     (if unconfigured p \<noteq> []
      then [\<lparr>v_id = gen 0, v_phase = ''B'', v_category = ''Configuration'',
             v_status =
               (if length (unconfigured p) = length (p_services p)
                then ''failed'' else ''warning''),
             v_message = showNat (length (unconfigured p)) @ '' services not containerized'',
             v_details =
               Some (''Configure containers for: ''
                       @ join '', '' (map svc_name (unconfigured p)))\<rparr>]
      else if p_containerConfigs p \<noteq> []
      then [\<lparr>v_id = gen 0, v_phase = ''B'', v_category = ''Configuration'',
             v_status = ''passed'',
             v_message = ''All services have container configurations'', v_details = None\<rparr>]
      else [])"
  by (simp add: validatePhaseB_def push_def Let_def)

lemma validate_one_service_no_config:
  assumes "p_services p = [s]" and "p_containerConfigs p = []"
  shows "validate gen (Some p) (Some ''B'')
        = (200, JsonValidations
             [\<lparr>v_id = gen 0, v_phase = ''B'', v_category = ''Configuration'',
               v_status = ''failed'', v_message = ''1 services not containerized'',
               v_details = Some (''Configure containers for: '' @ svc_name s)\<rparr>])"
  using assms
  by (simp add: validate_def validatePhaseB_def unconfigured_def configuredServices_def
      push_def Let_def showNat.simps digitChar_def)

text \<open>
  C6. Among the results of phase B, those of category Configuration are: one
  \<open>failed\<close> result when some service is unconfigured and the unconfigured ones are as
  many as the services; one \<open>warning\<close> when some but fewer are unconfigured; one
  \<open>passed\<close> when none is unconfigured and a config exists. The first two name the
  unconfigured services in their details. A project with one service and no container
  config gets exactly one result from the whole phase-B request, and it is \<open>failed\<close>.
\<close>

theorem phaseB_configuration_rule:
  "(unconfigured p \<noteq> [] \<and> length (unconfigured p) = length (p_services p) \<longrightarrow>
      filter (\<lambda>v. v_category v = ''Configuration'') (validatePhaseB gen p)
        = [\<lparr>v_id = gen 0, v_phase = ''B'', v_category = ''Configuration'',
            v_status = ''failed'',
            v_message = showNat (length (unconfigured p)) @ '' services not containerized'',
            v_details =
              Some (''Configure containers for: ''
                      @ join '', '' (map svc_name (unconfigured p)))\<rparr>])
   \<and> (unconfigured p \<noteq> [] \<and> length (unconfigured p) < length (p_services p) \<longrightarrow>
      filter (\<lambda>v. v_category v = ''Configuration'') (validatePhaseB gen p)
        = [\<lparr>v_id = gen 0, v_phase = ''B'', v_category = ''Configuration'',
            v_status = ''warning'',
            v_message = showNat (length (unconfigured p)) @ '' services not containerized'',
            v_details =
              Some (''Configure containers for: ''
                      @ join '', '' (map svc_name (unconfigured p)))\<rparr>])
   \<and> (unconfigured p = [] \<and> p_containerConfigs p \<noteq> [] \<longrightarrow>
      filter (\<lambda>v. v_category v = ''Configuration'') (validatePhaseB gen p)
        = [\<lparr>v_id = gen 0, v_phase = ''B'', v_category = ''Configuration'',
            v_status = ''passed'',
            v_message = ''All services have container configurations'', v_details = None\<rparr>])
   \<and> (p_services p = [s] \<and> p_containerConfigs p = [] \<longrightarrow>
      validate gen (Some p) (Some ''B'')
        = (200, JsonValidations
             [\<lparr>v_id = gen 0, v_phase = ''B'', v_category = ''Configuration'',
               v_status = ''failed'', v_message = ''1 services not containerized'',
               v_details = Some (''Configure containers for: '' @ svc_name s)\<rparr>]))"
  using validate_one_service_no_config [of p s gen]
  by (simp add: validatePhaseB_configuration)

lemmas example_defs =
  oneServiceProject_def emptyProject_def exampleService_def secondService_def
  exampleConfig_def configuredProject_def partlyConfiguredProject_def

lemma unconfigured_examples:
  "unconfigured oneServiceProject = [exampleService]"
  "unconfigured partlyConfiguredProject = [secondService]"
  "unconfigured configuredProject = []"
  by (simp_all add: unconfigured_def configuredServices_def example_defs)

theorem phaseB_configuration_rule_witness:
  "unconfigured oneServiceProject \<noteq> []
   \<and> length (unconfigured oneServiceProject) = length (p_services oneServiceProject)
   \<and> filter (\<lambda>v. v_category v = ''Configuration'') (validatePhaseB (\<lambda>k. showNat k) oneServiceProject)
       = [\<lparr>v_id = ''0'', v_phase = ''B'', v_category = ''Configuration'', v_status = ''failed'',
           v_message = ''1 services not containerized'',
           v_details = Some ''Configure containers for: Orders''\<rparr>]
   \<and> unconfigured partlyConfiguredProject \<noteq> []
   \<and> length (unconfigured partlyConfiguredProject) < length (p_services partlyConfiguredProject)
   \<and> filter (\<lambda>v. v_category v = ''Configuration'')
         (validatePhaseB (\<lambda>k. showNat k) partlyConfiguredProject)
       = [\<lparr>v_id = ''0'', v_phase = ''B'', v_category = ''Configuration'', v_status = ''warning'',
           v_message = ''1 services not containerized'',
           v_details = Some ''Configure containers for: Billing''\<rparr>]
   \<and> unconfigured configuredProject = []
   \<and> p_containerConfigs configuredProject \<noteq> []
   \<and> filter (\<lambda>v. v_category v = ''Configuration'') (validatePhaseB (\<lambda>k. showNat k) configuredProject)
       = [\<lparr>v_id = ''0'', v_phase = ''B'', v_category = ''Configuration'', v_status = ''passed'',
           v_message = ''All services have container configurations'', v_details = None\<rparr>]
   \<and> p_services oneServiceProject = [exampleService]
   \<and> p_containerConfigs oneServiceProject = []
   \<and> validate (\<lambda>k. showNat k) (Some oneServiceProject) (Some ''B'')
       = (200, JsonValidations
            [\<lparr>v_id = ''0'', v_phase = ''B'', v_category = ''Configuration'', v_status = ''failed'',
              v_message = ''1 services not containerized'',
              v_details = Some ''Configure containers for: Orders''\<rparr>])"
proof -
  have n: "showNat 0 = ''0''" "showNat (Suc 0) = ''1''"
    by (simp_all add: showNat.simps digitChar_def)
  have s: "p_services oneServiceProject = [exampleService]"
    "p_containerConfigs oneServiceProject = []"
    "p_services partlyConfiguredProject = [exampleService, secondService]"
    "p_containerConfigs configuredProject = [exampleConfig]"
    "svc_name exampleService = ''Orders''" "svc_name secondService = ''Billing''"
    by (simp_all add: example_defs)
  show ?thesis
    using phaseB_configuration_rule [of oneServiceProject "\<lambda>k. showNat k" exampleService]
      phaseB_configuration_rule [of partlyConfiguredProject "\<lambda>k. showNat k" exampleService]
      phaseB_configuration_rule [of configuredProject "\<lambda>k. showNat k" exampleService]
    by (simp add: unconfigured_examples n s)
qed

section \<open>Persistence boundary: PATCH of a project\<close>

lemma getProject_Some:
  "getProject db i = Returned (Some existing) \<longleftrightarrow>
     \<not> db_fails db (Select i) \<and> (\<exists>row. db_rows db i = Some row \<and> existing = dbRowToProject row)"
  by (auto simp: getProject_def split: option.splits)

lemma patchProject_existing:
  assumes "getProject db i = Returned (Some existing)" and "db_rows db i = Some row"
    and "\<not> refused u" and "\<not> db_fails db (Update i u now)"
  shows "patchProject db i u now =
           (db\<lparr>db_rows := (db_rows db)(i \<mapsto> setUpdateData u now row)\<rparr>,
            (200, JsonProject (dbRowToProject (setUpdateData u now row))))"
  using assms by (simp add: patchProject_def updateProject_def Let_def)

lemma patchProject_refused:
  assumes "getProject db i = Returned (Some existing)"
    and "refused u \<or> db_fails db (Update i u now)"
  shows "patchProject db i u now = (db, (500, JsonError ''Failed to update project''))"
  using assms by (auto simp: patchProject_def updateProject_def)

lemma patchProject_missing:
  assumes "getProject db i = Returned None"
  shows "patchProject db i u now = (db, (404, JsonError ''Project not found''))"
  using assms by (simp add: patchProject_def updateProject_def)

lemma patchProject_select_failed:
  assumes "getProject db i = Threw"
  shows "patchProject db i u now = (db, (500, JsonError ''Failed to update project''))"
  using assms by (simp add: patchProject_def updateProject_def)

text \<open>
  C8. Patching an id that has no row answers 404 "Project not found", whatever the
  payload, and leaves the database as it was; this differs from the 400 that a payload
  failing the create schema gets. Patching an existing project either fails in the
  database (the update breaks a column constraint, or the database fails it for a
  reason of its own), and then the route answers 500 and the database, with every field
  of the project, is as it was; or it answers 200 with the stored project, in which
  each of name, description, currentPhase and the eight collections that the payload
  omits has the value it had before, id and createdAt are kept and updatedAt is the
  time of the patch. When the select itself fails the route answers 500 as well.
\<close>

theorem patchProject_not_found_and_omitted_fields:
  "(getProject db i = Returned None \<longrightarrow>
      patchProject db i u now = (db, (404, JsonError ''Project not found''))
      \<and> (\<not> insertProjectSchema_ok b \<longrightarrow>
           fst (snd (postProject db b uuid now)) = 400
           \<and> snd (patchProject db i u now) \<noteq> snd (postProject db b uuid now)))
   \<and> (getProject db i = Threw \<longrightarrow>
      patchProject db i u now = (db, (500, JsonError ''Failed to update project'')))
   \<and> (getProject db i = Returned (Some existing)
       \<and> (refused u \<or> db_fails db (Update i u now)) \<longrightarrow>
      patchProject db i u now = (db, (500, JsonError ''Failed to update project'')))
   \<and> (getProject db i = Returned (Some existing)
       \<and> \<not> refused u \<and> \<not> db_fails db (Update i u now) \<longrightarrow>
      (\<exists>project db'.
         patchProject db i u now = (db', (200, JsonProject project))
         \<and> getProject db' i = Returned (Some project)
         \<and> p_id project = p_id existing
         \<and> p_createdAt project = p_createdAt existing
         \<and> p_updatedAt project = now
         \<and> (b_name u = Absent \<longrightarrow> p_name project = p_name existing)
         \<and> (b_description u = Absent \<longrightarrow> p_description project = p_description existing)
         \<and> (b_currentPhase u = Absent \<longrightarrow> p_currentPhase project = p_currentPhase existing)
         \<and> (b_boundedContexts u = Absent \<longrightarrow> p_boundedContexts project = p_boundedContexts existing)
         \<and> (b_services u = Absent \<longrightarrow> p_services project = p_services existing)
         \<and> (b_containerConfigs u = Absent \<longrightarrow> p_containerConfigs project = p_containerConfigs existing)
         \<and> (b_sloDefinitions u = Absent \<longrightarrow> p_sloDefinitions project = p_sloDefinitions existing)
         \<and> (b_autoscalingStrategies u = Absent \<longrightarrow> p_autoscalingStrategies project = p_autoscalingStrategies existing)
         \<and> (b_k8sManifests u = Absent \<longrightarrow> p_k8sManifests project = p_k8sManifests existing)
         \<and> (b_resiliencePatterns u = Absent \<longrightarrow> p_resiliencePatterns project = p_resiliencePatterns existing)
         \<and> (b_observabilityConfigs u = Absent \<longrightarrow> p_observabilityConfigs project = p_observabilityConfigs existing)))"
proof (intro conjI impI)
  assume "getProject db i = Returned None"
  then show nf: "patchProject db i u now = (db, (404, JsonError ''Project not found''))"
    by (rule patchProject_missing)
  assume "\<not> insertProjectSchema_ok b"
  then show "fst (snd (postProject db b uuid now)) = 400"
    by (simp add: postProject_def)
  from \<open>\<not> insertProjectSchema_ok b\<close>
  show "snd (patchProject db i u now) \<noteq> snd (postProject db b uuid now)"
    by (simp add: nf postProject_def)
next
  assume "getProject db i = Threw"
  then show "patchProject db i u now = (db, (500, JsonError ''Failed to update project''))"
    by (rule patchProject_select_failed)
next
  assume "getProject db i = Returned (Some existing)
       \<and> (refused u \<or> db_fails db (Update i u now))"
  then show "patchProject db i u now = (db, (500, JsonError ''Failed to update project''))"
    using patchProject_refused [of db i existing u now] by blast
next
  assume a: "getProject db i = Returned (Some existing)
       \<and> \<not> refused u \<and> \<not> db_fails db (Update i u now)"
  then have g: "getProject db i = Returned (Some existing)"
    and ok: "\<not> refused u" "\<not> db_fails db (Update i u now)"
    by blast+
  from g obtain row where sel: "\<not> db_fails db (Select i)"
    and row: "db_rows db i = Some row" and ex: "existing = dbRowToProject row"
    unfolding getProject_Some by blast
  show "\<exists>project db'.
         patchProject db i u now = (db', (200, JsonProject project))
         \<and> getProject db' i = Returned (Some project)
         \<and> p_id project = p_id existing
         \<and> p_createdAt project = p_createdAt existing
         \<and> p_updatedAt project = now
         \<and> (b_name u = Absent \<longrightarrow> p_name project = p_name existing)
         \<and> (b_description u = Absent \<longrightarrow> p_description project = p_description existing)
         \<and> (b_currentPhase u = Absent \<longrightarrow> p_currentPhase project = p_currentPhase existing)
         \<and> (b_boundedContexts u = Absent \<longrightarrow> p_boundedContexts project = p_boundedContexts existing)
         \<and> (b_services u = Absent \<longrightarrow> p_services project = p_services existing)
         \<and> (b_containerConfigs u = Absent \<longrightarrow> p_containerConfigs project = p_containerConfigs existing)
         \<and> (b_sloDefinitions u = Absent \<longrightarrow> p_sloDefinitions project = p_sloDefinitions existing)
         \<and> (b_autoscalingStrategies u = Absent \<longrightarrow> p_autoscalingStrategies project = p_autoscalingStrategies existing)
         \<and> (b_k8sManifests u = Absent \<longrightarrow> p_k8sManifests project = p_k8sManifests existing)
         \<and> (b_resiliencePatterns u = Absent \<longrightarrow> p_resiliencePatterns project = p_resiliencePatterns existing)
         \<and> (b_observabilityConfigs u = Absent \<longrightarrow> p_observabilityConfigs project = p_observabilityConfigs existing)"
    unfolding ex patchProject_existing [OF g row ok]
    by (simp add: getProject_def sel dbRowToProject_def setUpdateData_def written_def)
qed

theorem patchProject_not_found_and_omitted_fields_witness:
  "getProject exampleDb ''nope'' = Returned None
   \<and> patchProject exampleDb ''nope'' renameOnly ''t''
       = (exampleDb, (404, JsonError ''Project not found''))
   \<and> \<not> insertProjectSchema_ok \<lparr>ip_name = Value [], ip_description = Absent\<rparr>
   \<and> fst (snd (postProject exampleDb \<lparr>ip_name = Value [], ip_description = Absent\<rparr> ''u1'' ''t''))
       = 400
   \<and> getProject exampleDb ''p1'' = Returned (Some (dbRowToProject exampleRow))
   \<and> refused longPhase
   \<and> patchProject exampleDb ''p1'' longPhase ''t''
       = (exampleDb, (500, JsonError ''Failed to update project''))
   \<and> \<not> refused renameOnly
   \<and> \<not> db_fails exampleDb (Update ''p1'' renameOnly ''t'')
   \<and> b_description renameOnly = Absent
   \<and> b_currentPhase renameOnly = Absent
   \<and> b_services renameOnly = Absent
   \<and> b_k8sManifests renameOnly = Absent
   \<and> (\<exists>project db'.
         patchProject exampleDb ''p1'' renameOnly ''t'' = (db', (200, JsonProject project))
         \<and> p_description project = ''A web shop''
         \<and> p_currentPhase project = ''B''
         \<and> p_services project = [exampleService]
         \<and> p_k8sManifests project = []
         \<and> p_updatedAt project = ''t'')"
proof -
  have g: "getProject exampleDb ''p1'' = Returned (Some (dbRowToProject exampleRow))"
    by (simp add: getProject_def exampleDb_def)
  have n: "getProject exampleDb ''nope'' = Returned None"
    by (simp add: getProject_def exampleDb_def)
  have b: "\<not> insertProjectSchema_ok \<lparr>ip_name = Value [], ip_description = Absent\<rparr>"
    by (simp add: insertProjectSchema_ok_def)
  have r: "refused longPhase" "\<not> refused renameOnly"
    by (simp_all add: refused_def longPhase_def renameOnly_def emptyBody_def fitsVarchar1_def)
  have f: "\<not> db_fails exampleDb (Update ''p1'' renameOnly ''t'')"
    by (simp add: exampleDb_def)
  have u: "b_description renameOnly = Absent" "b_currentPhase renameOnly = Absent"
    "b_services renameOnly = Absent" "b_k8sManifests renameOnly = Absent"
    by (simp_all add: renameOnly_def emptyBody_def)
  have e: "p_description (dbRowToProject exampleRow) = ''A web shop''"
    "p_currentPhase (dbRowToProject exampleRow) = ''B''"
    "p_services (dbRowToProject exampleRow) = [exampleService]"
    "p_k8sManifests (dbRowToProject exampleRow) = []"
    by (simp_all add: dbRowToProject_def exampleRow_def)
  note absent =
    patchProject_not_found_and_omitted_fields
      [of exampleDb "''nope''" renameOnly "''t''"
          "\<lparr>ip_name = Value [], ip_description = Absent\<rparr>" "''u1''" "dbRowToProject exampleRow"]
  note rejected =
    patchProject_not_found_and_omitted_fields
      [of exampleDb "''p1''" longPhase "''t''"
          "\<lparr>ip_name = Value [], ip_description = Absent\<rparr>" "''u1''" "dbRowToProject exampleRow"]
  note present =
    patchProject_not_found_and_omitted_fields
      [of exampleDb "''p1''" renameOnly "''t''"
          "\<lparr>ip_name = Value [], ip_description = Absent\<rparr>" "''u1''" "dbRowToProject exampleRow"]
  have 1: "patchProject exampleDb ''nope'' renameOnly ''t''
             = (exampleDb, (404, JsonError ''Project not found''))"
    and 2: "fst (snd (postProject exampleDb \<lparr>ip_name = Value [], ip_description = Absent\<rparr>
              ''u1'' ''t'')) = 400"
    using absent n b by simp_all
  have 3: "patchProject exampleDb ''p1'' longPhase ''t''
       = (exampleDb, (500, JsonError ''Failed to update project''))"
    using rejected [THEN conjunct2, THEN conjunct2, THEN conjunct1] g r by blast
  have 4: "\<exists>project db'.
         patchProject exampleDb ''p1'' renameOnly ''t'' = (db', (200, JsonProject project))
         \<and> p_description project = ''A web shop''
         \<and> p_currentPhase project = ''B''
         \<and> p_services project = [exampleService]
         \<and> p_k8sManifests project = []
         \<and> p_updatedAt project = ''t''"
    using present [THEN conjunct2, THEN conjunct2, THEN conjunct2] g r f u e by auto
  show ?thesis
    using g n b r f u 1 2 3 4 by simp
qed

section \<open>Kubernetes manifest: lines of the template\<close>

lemma join_append:
  "xs \<noteq> [] \<Longrightarrow> ys \<noteq> [] \<Longrightarrow> join sep (xs @ ys) = join sep xs @ sep @ join sep ys"
proof (induction sep xs rule: join.induct)
  case (2 sep x)
  then show ?case by (cases ys) simp_all
qed simp_all

lemma join_inner_line:
  assumes "0 < i" and "Suc i < length ls"
  shows "sublist (sep @ ls ! i @ sep) (join sep ls)"
proof -
  have i: "i < length ls" using assms by simp
  have split: "ls = take i ls @ (ls ! i # drop (Suc i) ls)"
    using i by (simp add: id_take_nth_drop [symmetric])
  have a: "take i ls \<noteq> []" using assms by auto
  have b: "drop (Suc i) ls \<noteq> []" using assms by simp
  have "join sep ls = join sep (take i ls) @ sep @ join sep (ls ! i # drop (Suc i) ls)"
    using join_append [OF a, of "ls ! i # drop (Suc i) ls" sep] split by simp
  also have "join sep (ls ! i # drop (Suc i) ls) = ls ! i @ sep @ join sep (drop (Suc i) ls)"
    using b by (cases "drop (Suc i) ls") simp_all
  finally have "join sep ls =
      join sep (take i ls) @ (sep @ ls ! i @ sep) @ join sep (drop (Suc i) ls)"
    by simp
  then show ?thesis
    unfolding sublist_def by blast
qed

text \<open>
  A multi-line interpolation on a template line of its own renders the same text as its
  lines spliced into the template, which is how the generators above are written.
\<close>

lemma join_nested:
  assumes "ys \<noteq> []"
  shows "join sep (xs @ [join sep ys] @ zs) = join sep (xs @ ys @ zs)"
proof -
  have tail: "join sep ([join sep ys] @ zs) = join sep (ys @ zs)"
  proof (cases zs)
    case Nil
    then show ?thesis by simp
  next
    case (Cons z zs')
    then show ?thesis
      using join_append [of "[join sep ys]" zs sep] join_append [OF assms, of zs sep]
      by simp
  qed
  show ?thesis
  proof (cases xs)
    case Nil
    then show ?thesis using tail by simp
  next
    case (Cons x xs')
    then have "xs \<noteq> []" by simp
    then show ?thesis
      using join_append [of xs "[join sep ys] @ zs" sep] join_append [of xs "ys @ zs" sep]
        tail assms
      by simp
  qed
qed

lemma length_k8sLines:
  "length (k8sLines lower m n cc) =
     6 + length (mergedLabels lower m n) + 7 + length (rollingUpdateLines m) + 17
       + length (probeLines (healthCheckOf cc)) + 13"
  by (simp add: k8sLines_def workloadLines_def exposureLines_def Let_def)

lemma k8sLines_namespace: "k8sLines lower m n cc ! 4 = ''  namespace: '' @ namespaceOf m"
  by (simp add: k8sLines_def workloadLines_def Let_def)

lemma k8sLines_replicas:
  "k8sLines lower m n cc ! (7 + length (mergedLabels lower m n)) = ''  replicas: '' @ shown (replicasOf m)"
  by (simp add: k8sLines_def workloadLines_def exposureLines_def Let_def nth_append)

lemma k8sLines_strategy:
  "k8sLines lower m n cc ! (12 + length (mergedLabels lower m n)) = ''    type: '' @ strategyOf m"
  by (simp add: k8sLines_def workloadLines_def exposureLines_def Let_def nth_append)

lemma k8sLines_service_namespace:
  "k8sLines lower m n cc ! (length (k8sLines lower m n cc) - 8) = ''  namespace: '' @ namespaceOf m"
  by (simp add: k8sLines_def workloadLines_def exposureLines_def Let_def nth_append)


lemma labelLine_last: "last (labelLine kv) = CHR 0x22"
  by (simp add: labelLine_def)

lemma labelLine_no_header: "\<not> isProbeHeader (labelLine kv)"
proof
  assume "isProbeHeader (labelLine kv)"
  then have "last (labelLine kv) = CHR '':''"
    by (auto simp: isProbeHeader_def)
  then show False by (simp add: labelLine_last)
qed

lemma filter_labelLines: "filter isProbeHeader (map labelLine ls) = []"
  by (simp add: filter_empty_conv labelLine_no_header)

lemma filter_rollingUpdateLines: "filter isProbeHeader (rollingUpdateLines m) = []"
  by (simp add: rollingUpdateLines_def isProbeHeader_def)

lemma filter_probeLines:
  "filter isProbeHeader (probeLines h) =
     (case h of None \<Rightarrow> [] | Some hc \<Rightarrow> [''        livenessProbe:'', ''        readinessProbe:''])"
  by (simp add: probeLines_def isProbeHeader_def split: option.splits)

lemma filter_workloadLines: "filter isProbeHeader (workloadLines lower m n cc) = []"
  by (simp add: workloadLines_def Let_def filter_labelLines filter_rollingUpdateLines
      isProbeHeader_def)

lemma filter_exposureLines: "filter isProbeHeader (exposureLines lower m n cc) = []"
  by (simp add: exposureLines_def Let_def isProbeHeader_def)

lemma filter_k8sLines:
  "filter isProbeHeader (k8sLines lower m n cc) = filter isProbeHeader (probeLines (healthCheckOf cc))"
  by (simp add: k8sLines_def filter_workloadLines filter_exposureLines)

lemma length_exposureLines: "length (exposureLines lower m n cc) = 13"
  by (simp add: exposureLines_def Let_def)

lemma k8sLines_probe_part:
  "take (length (probeLines (healthCheckOf cc)))
     (drop (length (k8sLines lower m n cc) - (length (probeLines (healthCheckOf cc)) + 13))
        (k8sLines lower m n cc))
   = probeLines (healthCheckOf cc)"
  by (simp add: k8sLines_def length_exposureLines)

section \<open>Kubernetes manifest: fallbacks for falsy fields\<close>

text \<open>
  C10. A manifest with \<open>replicas = 0\<close> (or any falsy number) is rendered with the line \<open>replicas: 3\<close>, one
  with an empty namespace with \<open>namespace: default\<close> in both documents, and one with
  an empty deployment strategy with the strategy type \<open>RollingUpdate\<close>. The lines are
  given by their place in the template and as lines of the rendered text.
\<close>

theorem k8s_falsy_fallbacks:
  "(falsy (km_replicas m) \<longrightarrow>
      k8sLines lower m n cc ! (7 + length (mergedLabels lower m n)) = ''  replicas: 3''
      \<and> sublist (NL @ ''  replicas: 3'' @ NL) (k8sText lower m n cc))
   \<and> (km_namespace m = [] \<longrightarrow>
      k8sLines lower m n cc ! 4 = ''  namespace: default''
      \<and> k8sLines lower m n cc ! (length (k8sLines lower m n cc) - 8) = ''  namespace: default''
      \<and> sublist (NL @ ''  namespace: default'' @ NL) (k8sText lower m n cc))
   \<and> (km_deploymentStrategy m = [] \<longrightarrow>
      k8sLines lower m n cc ! (12 + length (mergedLabels lower m n)) = ''    type: RollingUpdate''
      \<and> sublist (NL @ ''    type: RollingUpdate'' @ NL) (k8sText lower m n cc))"
proof -
  have l1: "length (mergedLabels lower m n) + 20 < length (k8sLines lower m n cc)"
    by (simp add: length_k8sLines)
  have r: "sublist (NL @ k8sLines lower m n cc ! (7 + length (mergedLabels lower m n)) @ NL) (k8sText lower m n cc)"
    unfolding k8sText_def using l1 by (intro join_inner_line) simp_all
  have ns: "sublist (NL @ k8sLines lower m n cc ! 4 @ NL) (k8sText lower m n cc)"
    unfolding k8sText_def using l1 by (intro join_inner_line) simp_all
  have st: "sublist (NL @ k8sLines lower m n cc ! (12 + length (mergedLabels lower m n)) @ NL) (k8sText lower m n cc)"
    unfolding k8sText_def using l1 by (intro join_inner_line) simp_all
  have R: "k8sLines lower m n cc ! (7 + length (mergedLabels lower m n)) = ''  replicas: 3''"
    if "falsy (km_replicas m)"
    using that by (simp add: k8sLines_replicas replicasOf_def)
  have N: "k8sLines lower m n cc ! 4 = ''  namespace: default''"
    and N': "k8sLines lower m n cc ! (length (k8sLines lower m n cc) - 8) = ''  namespace: default''"
    if "km_namespace m = []"
    using that by (simp_all add: k8sLines_namespace k8sLines_service_namespace namespaceOf_def)
  have S: "k8sLines lower m n cc ! (12 + length (mergedLabels lower m n)) = ''    type: RollingUpdate''"
    if "km_deploymentStrategy m = []"
    using that by (simp add: k8sLines_strategy strategyOf_def)
  show ?thesis
  proof (intro conjI impI)
    assume z: "falsy (km_replicas m)"
    show "k8sLines lower m n cc ! (7 + length (mergedLabels lower m n)) = ''  replicas: 3''"
      by (rule R [OF z])
    show "sublist (NL @ ''  replicas: 3'' @ NL) (k8sText lower m n cc)"
      using r unfolding R [OF z] .
  next
    assume z: "km_namespace m = []"
    show "k8sLines lower m n cc ! 4 = ''  namespace: default''"
      by (rule N [OF z])
    show "k8sLines lower m n cc ! (length (k8sLines lower m n cc) - 8) = ''  namespace: default''"
      by (rule N' [OF z])
    show "sublist (NL @ ''  namespace: default'' @ NL) (k8sText lower m n cc)"
      using ns unfolding N [OF z] .
  next
    assume z: "km_deploymentStrategy m = []"
    show "k8sLines lower m n cc ! (12 + length (mergedLabels lower m n)) = ''    type: RollingUpdate''"
      by (rule S [OF z])
    show "sublist (NL @ ''    type: RollingUpdate'' @ NL) (k8sText lower m n cc)"
      using st unfolding S [OF z] .
  qed
qed

theorem k8s_falsy_fallbacks_witness:
  "km_replicas falsyManifest = Number ''0''
   \<and> falsy (km_replicas falsyManifest)
   \<and> km_namespace falsyManifest = []
   \<and> km_deploymentStrategy falsyManifest = []
   \<and> k8sLines asciiLowerCase falsyManifest ''Orders'' None ! 9 = ''  replicas: 3''
   \<and> k8sLines asciiLowerCase falsyManifest ''Orders'' None ! 4 = ''  namespace: default''
   \<and> k8sLines asciiLowerCase falsyManifest ''Orders'' None ! 14 = ''    type: RollingUpdate''
   \<and> sublist (NL @ ''  replicas: 3'' @ NL) (k8sText asciiLowerCase falsyManifest ''Orders'' None)
   \<and> sublist (NL @ ''  namespace: default'' @ NL) (k8sText asciiLowerCase falsyManifest ''Orders'' None)
   \<and> sublist (NL @ ''    type: RollingUpdate'' @ NL) (k8sText asciiLowerCase falsyManifest ''Orders'' None)"
proof -
  have f: "km_replicas falsyManifest = Number ''0''" "falsy (km_replicas falsyManifest)"
    "km_namespace falsyManifest = []" "km_deploymentStrategy falsyManifest = []"
    by (simp_all add: falsyManifest_def falsy_def)
  have l: "length (mergedLabels asciiLowerCase falsyManifest ''Orders'') = 2"
    by (simp add: mergedLabels_def falsyManifest_def exampleManifest_def)
  show ?thesis
    using k8s_falsy_fallbacks
      [where m = falsyManifest and lower = asciiLowerCase and n = "''Orders''" and cc = None]
    by (simp add: f l falsy_def)
qed

section \<open>Kubernetes manifest: probes\<close>

lemma splitLines_nonempty: "splitLines s \<noteq> []"
  by (induction s) (auto split: list.splits)

lemma splitLines_singleLine: "singleLine l \<Longrightarrow> splitLines l = [l]"
  by (induction l) (auto simp: singleLine_def)

lemma splitLines_line_break:
  "singleLine l \<Longrightarrow> splitLines (l @ NL @ rest) = l # splitLines rest"
  by (induction l) (auto simp: singleLine_def NL_def)

lemma splitLines_join:
  assumes "ls \<noteq> []" and "list_all singleLine ls"
  shows "splitLines (join NL ls) = ls"
  using assms
proof (induction NL ls rule: join.induct)
  case 1
  then show ?case by simp
next
  case (2 x)
  then show ?case by (simp add: splitLines_singleLine)
next
  case (3 x y ys)
  then show ?case by (simp add: splitLines_line_break)
qed

lemma singleLine_simps [simp]:
  "singleLine []"
  "singleLine (c # s) \<longleftrightarrow> c \<noteq> CHR 0x0A \<and> singleLine s"
  "singleLine (s @ t) \<longleftrightarrow> singleLine s \<and> singleLine t"
  by (auto simp: singleLine_def)

lemma singleLine_labelLine:
  "singleLine (labelLine kv) \<longleftrightarrow> singleLine (fst kv) \<and> singleLine (snd kv)"
  by (simp add: labelLine_def)

lemma singleLine_setKey:
  assumes "list_all (\<lambda>kv. singleLine (fst kv) \<and> singleLine (snd kv)) ls"
    and "singleLine k" and "singleLine v"
  shows "list_all (\<lambda>kv. singleLine (fst kv) \<and> singleLine (snd kv)) (setKey k v ls)"
  using assms by (induction ls) auto

lemma singleLine_probeLines:
  assumes "case h of None \<Rightarrow> True | Some hc \<Rightarrow>
             singleLine (hc_path hc) \<and> singleLine (shown (hc_port hc))
             \<and> singleLine (shown (hc_intervalSeconds hc))"
  shows "list_all singleLine (probeLines h)"
  using assms by (simp add: probeLines_def split: option.splits)

lemma singleLine_containerPort:
  assumes "case cc of None \<Rightarrow> True
           | Some c \<Rightarrow> list_all (\<lambda>port. singleLine (shown port)) (take 1 (cc_exposedPorts c))"
  shows "singleLine (shown (containerPort cc))"
  using assms by (auto simp: containerPort_def split: option.splits list.splits)

lemma singleLine_resourceOr:
  assumes "singleLine fallback"
    and "case cc of None \<Rightarrow> True
         | Some c \<Rightarrow> (case cc_resourceLimits c of None \<Rightarrow> True | Some r \<Rightarrow> singleLine (field r))"
  shows "singleLine (resourceOr cc field fallback)"
  using assms by (auto simp: resourceOr_def split: option.splits)

lemma singleLine_k8sLines:
  assumes h: "singleLineInputs lower m n cc"
  shows "list_all singleLine (k8sLines lower m n cc)"
proof -
  from h have n: "singleLine (lower n)" and ns: "singleLine (km_namespace m)"
    and st: "singleLine (km_deploymentStrategy m)" and rp: "singleLine (shown (km_replicas m))"
    and lb: "list_all (\<lambda>kv. singleLine (fst kv) \<and> singleLine (snd kv)) (km_labels m)"
    by (simp_all add: singleLineInputs_def)
  from h have port: "case cc of None \<Rightarrow> True
           | Some c \<Rightarrow> list_all (\<lambda>port. singleLine (shown port)) (take 1 (cc_exposedPorts c))"
    by (simp add: singleLineInputs_def split: option.splits)
  from h have hc: "case healthCheckOf cc of None \<Rightarrow> True | Some hc \<Rightarrow>
             singleLine (hc_path hc) \<and> singleLine (shown (hc_port hc))
             \<and> singleLine (shown (hc_intervalSeconds hc))"
    by (simp add: singleLineInputs_def healthCheckOf_def split: option.splits)
  from h have rl: "\<And>field. field \<in> {rl_cpuRequest, rl_memoryRequest, rl_cpuLimit, rl_memoryLimit} \<Longrightarrow>
      (case cc of None \<Rightarrow> True
         | Some c \<Rightarrow> (case cc_resourceLimits c of None \<Rightarrow> True | Some r \<Rightarrow> singleLine (field r)))"
    by (auto simp: singleLineInputs_def split: option.splits)
  have r1: "singleLine (resourceOr cc rl_cpuRequest ''100m'')"
    by (rule singleLine_resourceOr) (simp_all add: rl)
  have r2: "singleLine (resourceOr cc rl_memoryRequest ''128Mi'')"
    by (rule singleLine_resourceOr) (simp_all add: rl)
  have r3: "singleLine (resourceOr cc rl_cpuLimit ''500m'')"
    by (rule singleLine_resourceOr) (simp_all add: rl)
  have r4: "singleLine (resourceOr cc rl_memoryLimit ''512Mi'')"
    by (rule singleLine_resourceOr) (simp_all add: rl)
  have cp: "singleLine (shown (containerPort cc))"
    by (rule singleLine_containerPort [OF port])
  have nso: "singleLine (namespaceOf m)"
    using ns by (simp add: namespaceOf_def)
  have sto: "singleLine (strategyOf m)"
    using st by (simp add: strategyOf_def)
  have rpo: "singleLine (shown (replicasOf m))"
    using rp by (simp add: replicasOf_def)
  have lbs: "list_all singleLine (map labelLine (mergedLabels lower m n))"
    using singleLine_setKey [OF lb _ n, of "''app''"]
    by (simp add: mergedLabels_def list_all_iff singleLine_labelLine)
  have ru: "list_all singleLine (rollingUpdateLines m)"
    by (simp add: rollingUpdateLines_def)
  have w: "list_all singleLine (workloadLines lower m n cc)"
    using n nso sto rpo lbs ru r1 r2 r3 r4 cp
    by (simp add: workloadLines_def Let_def)
  have e: "list_all singleLine (exposureLines lower m n cc)"
    using n nso cp by (simp add: exposureLines_def Let_def)
  show ?thesis
    using w e singleLine_probeLines [OF hc] by (simp add: k8sLines_def)
qed

lemma k8sLines_nonempty: "k8sLines lower m n cc \<noteq> []"
  by (simp add: k8sLines_def workloadLines_def Let_def)

lemma splitLines_k8sText:
  "singleLineInputs lower m n cc \<Longrightarrow> splitLines (k8sText lower m n cc) = k8sLines lower m n cc"
  unfolding k8sText_def
  by (intro splitLines_join k8sLines_nonempty singleLine_k8sLines)

lemma generateK8sManifest_text:
  "n \<noteq> [] \<Longrightarrow>
     generateK8sManifest lower (Some m) n cc = (200, JsonManifest (k8sText lower m n cc))"
  by (simp add: generateK8sManifest_def)

text \<open>
  C2, as amended. The manifest is the text that the endpoint returns for a non-empty
  service name; its lines are those of that text. When every interpolated string and
  number rendering stays on one line: without a container config, or with one that has
  no health check, the manifest has no probe header line and an empty line where the
  probes would stand; with a health check it has exactly the two headers,
  livenessProbe then readinessProbe, in the twelve lines before the document separator:
  both probes use the health check's path and port, the liveness probe has
  initialDelaySeconds 15 and periodSeconds equal to the health-check interval, and the
  readiness probe has initialDelaySeconds 5 and the fixed periodSeconds 10.
\<close>

theorem k8s_probe_blocks:
  "(n \<noteq> [] \<longrightarrow>
      generateK8sManifest lower (Some m) n cc = (200, JsonManifest (k8sText lower m n cc)))
   \<and> (singleLineInputs lower m n cc
       \<and> (cc = None \<or> (\<exists>c. cc = Some c \<and> cc_healthCheck c = None)) \<longrightarrow>
      filter isProbeHeader (splitLines (k8sText lower m n cc)) = []
      \<and> take 1 (drop (length (splitLines (k8sText lower m n cc)) - 14) (splitLines (k8sText lower m n cc))) = [[]])
   \<and> (singleLineInputs lower m n cc \<and> cc = Some c \<and> cc_healthCheck c = Some hc \<longrightarrow>
      filter isProbeHeader (splitLines (k8sText lower m n cc))
        = [''        livenessProbe:'', ''        readinessProbe:'']
      \<and> take 12 (drop (length (splitLines (k8sText lower m n cc)) - 25) (splitLines (k8sText lower m n cc)))
        = [''        livenessProbe:'',
           ''          httpGet:'',
           ''            path: '' @ hc_path hc,
           ''            port: '' @ shown (hc_port hc),
           ''          initialDelaySeconds: 15'',
           ''          periodSeconds: '' @ shown (hc_intervalSeconds hc),
           ''        readinessProbe:'',
           ''          httpGet:'',
           ''            path: '' @ hc_path hc,
           ''            port: '' @ shown (hc_port hc),
           ''          initialDelaySeconds: 5'',
           ''          periodSeconds: 10''])"
proof (intro conjI impI)
  assume "n \<noteq> []"
  then show "generateK8sManifest lower (Some m) n cc = (200, JsonManifest (k8sText lower m n cc))"
    by (rule generateK8sManifest_text)
next
  assume a: "singleLineInputs lower m n cc
       \<and> (cc = None \<or> (\<exists>c. cc = Some c \<and> cc_healthCheck c = None))"
  then have sl: "singleLineInputs lower m n cc" by (rule conjunct1)
  have s: "splitLines (k8sText lower m n cc) = k8sLines lower m n cc"
    by (rule splitLines_k8sText [OF sl])
  from a have h: "healthCheckOf cc = None"
    by (auto simp: healthCheckOf_def)
  show "filter isProbeHeader (splitLines (k8sText lower m n cc)) = []"
    unfolding s by (simp add: filter_k8sLines filter_probeLines h)
  have len: "length (probeLines (healthCheckOf cc)) = 1"
    by (simp add: h probeLines_def)
  show "take 1 (drop (length (splitLines (k8sText lower m n cc)) - 14) (splitLines (k8sText lower m n cc))) = [[]]"
    unfolding s using k8sLines_probe_part [of cc lower m n] unfolding len
    by (simp add: h probeLines_def)
next
  assume a: "singleLineInputs lower m n cc \<and> cc = Some c \<and> cc_healthCheck c = Some hc"
  then have sl: "singleLineInputs lower m n cc" by (rule conjunct1)
  have s: "splitLines (k8sText lower m n cc) = k8sLines lower m n cc"
    by (rule splitLines_k8sText [OF sl])
  from a have h: "healthCheckOf cc = Some hc"
    by (simp add: healthCheckOf_def)
  show "filter isProbeHeader (splitLines (k8sText lower m n cc))
        = [''        livenessProbe:'', ''        readinessProbe:'']"
    unfolding s by (simp add: filter_k8sLines filter_probeLines h)
  have len: "length (probeLines (healthCheckOf cc)) = 12"
    by (simp add: h probeLines_def)
  show "take 12 (drop (length (splitLines (k8sText lower m n cc)) - 25) (splitLines (k8sText lower m n cc)))
        = [''        livenessProbe:'',
           ''          httpGet:'',
           ''            path: '' @ hc_path hc,
           ''            port: '' @ shown (hc_port hc),
           ''          initialDelaySeconds: 15'',
           ''          periodSeconds: '' @ shown (hc_intervalSeconds hc),
           ''        readinessProbe:'',
           ''          httpGet:'',
           ''            path: '' @ hc_path hc,
           ''            port: '' @ shown (hc_port hc),
           ''          initialDelaySeconds: 5'',
           ''          periodSeconds: 10'']"
    unfolding s using k8sLines_probe_part [of cc lower m n] unfolding len
    by (simp add: h probeLines_def)
qed

lemma asciiLowerCase_Orders: "asciiLowerCase ''Orders'' = ''orders''"
  by code_simp

lemma singleLineInputs_examples:
  "singleLineInputs asciiLowerCase exampleManifest ''Orders'' None"
  "singleLineInputs asciiLowerCase exampleManifest ''Orders'' (Some unprobedConfig)"
  "singleLineInputs asciiLowerCase exampleManifest ''Orders'' (Some exampleConfig)"
  by (simp_all add: singleLineInputs_def asciiLowerCase_Orders exampleManifest_def
      unprobedConfig_def exampleConfig_def exampleHealthCheck_def)

theorem k8s_probe_blocks_witness:
  "''Orders'' \<noteq> []
   \<and> generateK8sManifest asciiLowerCase (Some exampleManifest) ''Orders'' (Some exampleConfig)
       = (200, JsonManifest (k8sText asciiLowerCase exampleManifest ''Orders'' (Some exampleConfig)))
   \<and> singleLineInputs asciiLowerCase exampleManifest ''Orders'' None
   \<and> filter isProbeHeader (splitLines (k8sText asciiLowerCase exampleManifest ''Orders'' None)) = []
   \<and> singleLineInputs asciiLowerCase exampleManifest ''Orders'' (Some unprobedConfig)
   \<and> cc_healthCheck unprobedConfig = None
   \<and> filter isProbeHeader
        (splitLines (k8sText asciiLowerCase exampleManifest ''Orders'' (Some unprobedConfig))) = []
   \<and> singleLineInputs asciiLowerCase exampleManifest ''Orders'' (Some exampleConfig)
   \<and> cc_healthCheck exampleConfig = Some exampleHealthCheck
   \<and> filter isProbeHeader
        (splitLines (k8sText asciiLowerCase exampleManifest ''Orders'' (Some exampleConfig)))
       = [''        livenessProbe:'', ''        readinessProbe:'']
   \<and> take 12
        (drop (length (splitLines
                 (k8sText asciiLowerCase exampleManifest ''Orders'' (Some exampleConfig))) - 25)
           (splitLines (k8sText asciiLowerCase exampleManifest ''Orders'' (Some exampleConfig))))
       = [''        livenessProbe:'',
          ''          httpGet:'',
          ''            path: /health'',
          ''            port: 8080'',
          ''          initialDelaySeconds: 15'',
          ''          periodSeconds: 30'',
          ''        readinessProbe:'',
          ''          httpGet:'',
          ''            path: /health'',
          ''            port: 8080'',
          ''          initialDelaySeconds: 5'',
          ''          periodSeconds: 10'']"
proof -
  have u: "cc_healthCheck unprobedConfig = None"
    by (simp add: unprobedConfig_def)
  have p: "cc_healthCheck exampleConfig = Some exampleHealthCheck"
    by (simp add: exampleConfig_def)
  have e: "hc_path exampleHealthCheck = ''/health''" "shown (hc_port exampleHealthCheck) = ''8080''"
    "shown (hc_intervalSeconds exampleHealthCheck) = ''30''"
    by (simp_all add: exampleHealthCheck_def)
  note t1 = k8s_probe_blocks
    [where lower = asciiLowerCase and m = exampleManifest and n = "''Orders''" and cc = None
       and c = exampleConfig and hc = exampleHealthCheck]
  note t2 = k8s_probe_blocks
    [where lower = asciiLowerCase and m = exampleManifest and n = "''Orders''"
       and cc = "Some unprobedConfig" and c = exampleConfig and hc = exampleHealthCheck]
  note t3 = k8s_probe_blocks
    [where lower = asciiLowerCase and m = exampleManifest and n = "''Orders''"
       and cc = "Some exampleConfig" and c = exampleConfig and hc = exampleHealthCheck]
  have 0: "generateK8sManifest asciiLowerCase (Some exampleManifest) ''Orders'' (Some exampleConfig)
       = (200, JsonManifest (k8sText asciiLowerCase exampleManifest ''Orders'' (Some exampleConfig)))"
    using t3 [THEN conjunct1] by simp
  have 1: "filter isProbeHeader (splitLines (k8sText asciiLowerCase exampleManifest ''Orders'' None)) = []"
    using t1 [THEN conjunct2, THEN conjunct1] singleLineInputs_examples(1) by simp
  have 2: "filter isProbeHeader
        (splitLines (k8sText asciiLowerCase exampleManifest ''Orders'' (Some unprobedConfig))) = []"
    using t2 [THEN conjunct2, THEN conjunct1] singleLineInputs_examples(2) u by simp
  have 3: "filter isProbeHeader
        (splitLines (k8sText asciiLowerCase exampleManifest ''Orders'' (Some exampleConfig)))
       = [''        livenessProbe:'', ''        readinessProbe:'']"
    and 4: "take 12
        (drop (length (splitLines
                 (k8sText asciiLowerCase exampleManifest ''Orders'' (Some exampleConfig))) - 25)
           (splitLines (k8sText asciiLowerCase exampleManifest ''Orders'' (Some exampleConfig))))
       = [''        livenessProbe:'',
          ''          httpGet:'',
          ''            path: /health'',
          ''            port: 8080'',
          ''          initialDelaySeconds: 15'',
          ''          periodSeconds: 30'',
          ''        readinessProbe:'',
          ''          httpGet:'',
          ''            path: /health'',
          ''            port: 8080'',
          ''          initialDelaySeconds: 5'',
          ''          periodSeconds: 10'']"
    using t3 [THEN conjunct2, THEN conjunct2] singleLineInputs_examples(3) p e by simp_all
  show ?thesis
    unfolding 0 1 2 3 4 using singleLineInputs_examples u p by simp
qed

text \<open>
  The claim as stated gives both probes the health-check interval as their period. With
  the interval 30 the manifest returned by the endpoint has the readiness probe below,
  with \<open>periodSeconds: 10\<close>, and no line \<open>periodSeconds: 30\<close> in it.
\<close>

theorem k8s_readiness_period_counterexample:
  "cc_healthCheck exampleConfig = Some exampleHealthCheck
   \<and> hc_intervalSeconds exampleHealthCheck = Number ''30''
   \<and> generateK8sManifest asciiLowerCase (Some exampleManifest) ''Orders'' (Some exampleConfig)
       = (200, JsonManifest (k8sText asciiLowerCase exampleManifest ''Orders'' (Some exampleConfig)))
   \<and> take 6
        (drop (length (splitLines
                 (k8sText asciiLowerCase exampleManifest ''Orders'' (Some exampleConfig))) - 19)
           (splitLines (k8sText asciiLowerCase exampleManifest ''Orders'' (Some exampleConfig))))
       = [''        readinessProbe:'',
          ''          httpGet:'',
          ''            path: /health'',
          ''            port: 8080'',
          ''          initialDelaySeconds: 5'',
          ''          periodSeconds: 10'']
   \<and> ''          periodSeconds: 30''
       \<notin> set (take 6
                (drop (length (splitLines
                         (k8sText asciiLowerCase exampleManifest ''Orders'' (Some exampleConfig))) - 19)
                   (splitLines
                      (k8sText asciiLowerCase exampleManifest ''Orders'' (Some exampleConfig)))))"
proof -
  have s: "splitLines (k8sText asciiLowerCase exampleManifest ''Orders'' (Some exampleConfig))
      = k8sLines asciiLowerCase exampleManifest ''Orders'' (Some exampleConfig)"
    by (rule splitLines_k8sText [OF singleLineInputs_examples(3)])
  have p: "healthCheckOf (Some exampleConfig) = Some exampleHealthCheck"
    by (simp add: healthCheckOf_def exampleConfig_def)
  have d: "take 6 (drop (length (k8sLines asciiLowerCase exampleManifest ''Orders'' (Some exampleConfig)) - 19)
         (k8sLines asciiLowerCase exampleManifest ''Orders'' (Some exampleConfig)))
       = [''        readinessProbe:'',
          ''          httpGet:'',
          ''            path: /health'',
          ''            port: 8080'',
          ''          initialDelaySeconds: 5'',
          ''          periodSeconds: 10'']"
    by (simp add: k8sLines_def length_exposureLines p probeLines_def exampleHealthCheck_def)
  show ?thesis
    unfolding s d
    by (simp add: exampleConfig_def exampleHealthCheck_def generateK8sManifest_def k8sText_def)
qed

section \<open>Dockerfile: lines of the template\<close>

lemma envLine_secret_value:
  "envLine (if env_isSecret env then env\<lparr>env_value := v\<rparr> else env) = envLine env"
  by (simp add: envLine_def)

lemma dockerfileLines_withSecretValues:
  "dockerfileLines (withSecretValues f cc) n = dockerfileLines cc n"
  by (simp add: dockerfileLines_def withSecretValues_def baseImageOf_def Let_def o_def
      envLine_secret_value)

lemma length_orBlank: "length (orBlank ls) = (if ls = [] then 1 else length ls)"
  by (simp add: orBlank_def)

lemma dockerfileLines_env_part:
  "take (length (orBlank (map envLine (cc_environmentVariables cc))))
     (drop (if cc_buildType cc = ''multi-stage'' then 16 else 9) (dockerfileLines cc n))
   = orBlank (map envLine (cc_environmentVariables cc))"
  by (simp add: dockerfileLines_def Let_def)

lemma sublist_chain: "sublist xs ys \<Longrightarrow> sublist ys zs \<Longrightarrow> sublist xs zs"
proof -
  assume "sublist xs ys" and "sublist ys zs"
  then obtain p s p' s' where "ys = p @ xs @ s" and "zs = p' @ ys @ s'"
    unfolding sublist_def by blast
  then have "zs = (p' @ p) @ xs @ (s @ s')" by simp
  then show ?thesis unfolding sublist_def by blast
qed

lemma dockerfile_user_line: "sublist ''USER node'' (dockerfileText cc n)"
proof -
  let ?ls = "dockerfileLines cc n"
  have len: "length ?ls =
      (if cc_buildType cc = ''multi-stage'' then 16 else 9)
        + length (orBlank (map envLine (cc_environmentVariables cc))) + 1
        + length (orBlank (map exposeLine (cc_exposedPorts cc))) + 1
        + length (healthCheckLines (cc_healthCheck cc)) + 3"
    by (simp add: dockerfileLines_def Let_def)
  have u: "?ls ! (length ?ls - 2) = ''USER node''"
    by (simp add: dockerfileLines_def Let_def nth_append)
  have "sublist (NL @ ?ls ! (length ?ls - 2) @ NL) (join NL ?ls)"
    by (rule join_inner_line) (simp_all add: len)
  then have "sublist (NL @ ''USER node'' @ NL) (dockerfileText cc n)"
    by (simp add: u dockerfileText_def)
  moreover have "sublist ''USER node'' (NL @ ''USER node'' @ NL)"
    by (rule sublist_appendI)
  ultimately show ?thesis
    by (rule sublist_chain [rotated])
qed


lemma dockerfile_multistage_stages:
  assumes "cc_buildType cc = ''multi-stage''"
  shows "dockerfileLines cc n ! 1 = ''# Stage 1: Build''"
    and "dockerfileLines cc n ! 2 = ''FROM '' @ baseImageOf cc @ '' AS builder''"
    and "dockerfileLines cc n ! 9 = ''# Stage 2: Production''"
    and "dockerfileLines cc n ! 10 = ''FROM '' @ productionImage (baseImageOf cc)"
  using assms by (simp_all add: dockerfileLines_def Let_def)

lemma productionImage_examples:
  "productionImage ''node:20-alpine'' = ''node:20-alpine''"
  "productionImage ''python:3.12-slim'' = ''python:3.12-alpine''"
  by (simp_all add: productionImage_def)


section \<open>Dockerfile: stage 2 of a multi-stage build\<close>

text \<open>
  C1. The Dockerfile generated for a multi-stage config whose base image is
  \<open>node:20-alpine\<close>: stage 1 builds from \<open>node:20-alpine\<close> and stage 2 runs from
  \<open>node:20-alpine\<close> again. The second replacement turns the \<open>-slim\<close> written by the
  first one back into \<open>-alpine\<close>, so the stage-2 image of a base image ending in
  \<open>-alpine\<close> does not end in \<open>-slim\<close>.
\<close>

theorem dockerfile_multistage_alpine_stage2:
  "cc_buildType exampleConfig = ''multi-stage''
   \<and> cc_baseImage exampleConfig = ''node:20-alpine''
   \<and> suffix ''-alpine'' (cc_baseImage exampleConfig)
   \<and> generateDockerfile (Some exampleConfig) ''Orders''
       = (200, JsonDockerfile (join NL (dockerfileLines exampleConfig ''Orders'')))
   \<and> dockerfileLines exampleConfig ''Orders'' ! 2 = ''FROM node:20-alpine AS builder''
   \<and> dockerfileLines exampleConfig ''Orders'' ! 10 = ''FROM node:20-alpine''
   \<and> \<not> suffix ''-slim'' (productionImage (cc_baseImage exampleConfig))"
proof -
  have b: "cc_buildType exampleConfig = ''multi-stage''"
    and i: "cc_baseImage exampleConfig = ''node:20-alpine''"
    by (simp_all add: exampleConfig_def)
  have bi: "baseImageOf exampleConfig = ''node:20-alpine''"
    by (simp add: baseImageOf_def i)
  have s: "suffix ''-alpine'' ''node:20-alpine''" "\<not> suffix ''-slim'' ''node:20-alpine''"
    by (simp_all add: suffix_to_prefix)
  show ?thesis
    using dockerfile_multistage_stages [OF b, of "''Orders''"] s
    by (simp add: b i bi productionImage_examples generateDockerfile_def dockerfileText_def)
qed

section \<open>Dockerfile: environment variables\<close>

text \<open>
  C4, as amended. The generated Dockerfile does not depend on the value of any secret
  entry: replacing the values of the secret entries leaves the text, and the answer of
  the endpoint, unchanged. A secret entry is rendered as the comment
  \<open># KEY - Set via secrets management\<close>, built from its key alone; every other entry
  as \<open>ENV KEY="VALUE"\<close>; the entries take one line each, in input order, at their place
  in the template.
\<close>

theorem dockerfile_env_rendering:
  "dockerfileText (withSecretValues f cc) n = dockerfileText cc n
   \<and> (env_isSecret env \<longrightarrow> envLine env = ''# '' @ env_key env @ '' - Set via secrets management'')
   \<and> (\<not> env_isSecret env \<longrightarrow>
        envLine env = ''ENV '' @ env_key env @ [CHR ''='', CHR 0x22] @ env_value env @ [CHR 0x22])
   \<and> (cc_environmentVariables cc \<noteq> [] \<longrightarrow>
        take (length (cc_environmentVariables cc))
          (drop (if cc_buildType cc = ''multi-stage'' then 16 else 9) (dockerfileLines cc n))
        = map envLine (cc_environmentVariables cc))
   \<and> generateDockerfile (Some (withSecretValues f cc)) n = generateDockerfile (Some cc) n"
proof -
  have "cc_environmentVariables cc \<noteq> [] \<Longrightarrow>
        take (length (cc_environmentVariables cc))
          (drop (if cc_buildType cc = ''multi-stage'' then 16 else 9) (dockerfileLines cc n))
        = map envLine (cc_environmentVariables cc)"
    using dockerfileLines_env_part [of cc n] by (simp add: orBlank_def)
  then show ?thesis
    by (simp add: dockerfileText_def dockerfileLines_withSecretValues envLine_def
        generateDockerfile_def)
qed

theorem dockerfile_env_rendering_witness:
  \<open>env_isSecret \<lparr>env_key = ''TOKEN'', env_value = ''node'', env_isSecret = True\<rparr>
   \<and> envLine \<lparr>env_key = ''TOKEN'', env_value = ''node'', env_isSecret = True\<rparr>
       = ''# TOKEN - Set via secrets management''
   \<and> \<not> env_isSecret \<lparr>env_key = ''PORT'', env_value = ''8080'', env_isSecret = False\<rparr>
   \<and> envLine \<lparr>env_key = ''PORT'', env_value = ''8080'', env_isSecret = False\<rparr>
       = ''ENV PORT="8080"''
   \<and> cc_environmentVariables exampleConfig \<noteq> []
   \<and> take 2 (drop 16 (dockerfileLines exampleConfig ''Orders''))
       = [''ENV PORT="8080"'', ''# TOKEN - Set via secrets management'']
   \<and> dockerfileText (withSecretValues (\<lambda>env. ''s3cr3t'') exampleConfig) ''Orders''
       = dockerfileText exampleConfig ''Orders''
   \<and> generateDockerfile (Some (withSecretValues (\<lambda>env. ''s3cr3t'') exampleConfig)) ''Orders''
       = generateDockerfile (Some exampleConfig) ''Orders''\<close>
proof -
  let ?token = "\<lparr>env_key = ''TOKEN'', env_value = ''node'', env_isSecret = True\<rparr>"
  let ?port = "\<lparr>env_key = ''PORT'', env_value = ''8080'', env_isSecret = False\<rparr>"
  have e: "cc_environmentVariables exampleConfig = [?port, ?token]"
    and b: "cc_buildType exampleConfig = ''multi-stage''"
    by (simp_all add: exampleConfig_def)
  note t = dockerfile_env_rendering [of "\<lambda>env. ''s3cr3t''" exampleConfig "''Orders''" ?token]
  note p = dockerfile_env_rendering [of "\<lambda>env. ''s3cr3t''" exampleConfig "''Orders''" ?port]
  have 1: "dockerfileText (withSecretValues (\<lambda>env. ''s3cr3t'') exampleConfig) ''Orders''
       = dockerfileText exampleConfig ''Orders''"
    using t by (rule conjunct1)
  have 2: "envLine ?token = ''# TOKEN - Set via secrets management''"
    using t [THEN conjunct2, THEN conjunct1] by simp
  have 3: "envLine ?port = ''ENV PORT='' @ [CHR 0x22] @ ''8080'' @ [CHR 0x22]"
    using p [THEN conjunct2, THEN conjunct2, THEN conjunct1] by simp
  have 4: "take 2 (drop 16 (dockerfileLines exampleConfig ''Orders'')) = [envLine ?port, envLine ?token]"
    using t [THEN conjunct2, THEN conjunct2, THEN conjunct2, THEN conjunct1] by (simp add: e b numeral_2_eq_2)
  have 5: "generateDockerfile (Some (withSecretValues (\<lambda>env. ''s3cr3t'') exampleConfig)) ''Orders''
       = generateDockerfile (Some exampleConfig) ''Orders''"
    using t [THEN conjunct2, THEN conjunct2, THEN conjunct2, THEN conjunct2] .
  show ?thesis
    unfolding 4 unfolding 1 2 3 5 by (simp add: e)
qed

text \<open>
  The claim as stated, that the text never contains a secret's value as a substring,
  fails when the value occurs in the fixed text of the template: the value \<open>node\<close>
  occurs in \<open>USER node\<close>.
\<close>

theorem dockerfile_secret_value_counterexample:
  "\<lparr>env_key = ''TOKEN'', env_value = ''node'', env_isSecret = True\<rparr>
     \<in> set (cc_environmentVariables exampleConfig)
   \<and> sublist ''node'' (dockerfileText exampleConfig ''Orders'')"
proof -
  have "sublist ''node'' ''USER node''"
    by (simp add: sublist_code)
  then have "sublist ''node'' (dockerfileText exampleConfig ''Orders'')"
    using dockerfile_user_line [of exampleConfig "''Orders''"]
    by (rule sublist_chain)
  then show ?thesis
    by (simp add: exampleConfig_def)
qed

section \<open>Validation endpoint: phase A, circular dependencies\<close>

lemma scanDeps_scanEdges: "scanDeps gen n ds st = scanEdges gen (map (Pair n) ds) st"
proof (induction ds arbitrary: st)
  case Nil
  show ?case by simp
next
  case (Cons d ds)
  obtain D vs where st: "st = (D, vs)" by (cases st)
  show ?case
    unfolding st by (simp add: Cons.IH edgeKey_def circularMessage_def Let_def)
qed

lemma scanEdges_append: "scanEdges gen (es @ fs) st = scanEdges gen fs (scanEdges gen es st)"
proof (induction es arbitrary: st)
  case Nil
  show ?case by simp
next
  case (Cons e es)
  obtain D vs where st: "st = (D, vs)" by (cases st)
  show ?case unfolding st by (simp add: Cons.IH)
qed

lemma scanServices_scanEdges: "scanServices gen ss st = scanEdges gen (edgesOf ss) st"
proof (induction ss arbitrary: st)
  case Nil
  show ?case by (simp add: edgesOf_def)
next
  case (Cons s ss)
  have "edgesOf (s # ss) = map (Pair (svc_name s)) (svc_dependencies s) @ edgesOf ss"
    by (simp add: edgesOf_def)
  then show ?case
    by (simp add: Cons.IH scanDeps_scanEdges scanEdges_append)
qed

lemma scanEdges_results:
  "\<exists>errs. snd (scanEdges gen es (D, vs)) = vs @ errs
     \<and> (\<forall>v \<in> set errs. isError v)
     \<and> map v_message errs = map circularMessage (reported D es)"
proof (induction es arbitrary: D vs)
  case Nil
  show ?case by simp
next
  case (Cons e es)
  show ?case
  proof (cases "edgeKey (prod.swap e) \<in> D")
    case True
    let ?v = "\<lparr>v_id = gen (length vs), v_phase = ''A'', v_category = ''Dependencies'',
      v_status = ''error'', v_message = circularMessage e,
      v_details = Some ''Consider using async communication or event-driven patterns''\<rparr>"
    from Cons.IH [of "insert (edgeKey e) D" "vs @ [?v]"]
    obtain errs where
      "snd (scanEdges gen es (insert (edgeKey e) D, vs @ [?v])) = (vs @ [?v]) @ errs"
      "\<forall>v \<in> set errs. isError v"
      "map v_message errs = map circularMessage (reported (insert (edgeKey e) D) es)"
      by blast
    then show ?thesis
      using True by (intro exI [of _ "?v # errs"]) (simp add: push_def isError_def)
  next
    case False
    from Cons.IH [of "insert (edgeKey e) D" vs]
    show ?thesis using False by simp
  qed
qed

lemma arrow_overlap:
  assumes "us @ ''->'' @ b = ''->'' @ d" and "arrowFree (c @ us)"
  shows "us = []"
proof (cases us)
  case Nil
  then show ?thesis .
next
  case (Cons u us')
  show ?thesis
  proof (cases us')
    case Nil
    with Cons assms(1) show ?thesis by simp
  next
    case (Cons v us'')
    with \<open>us = u # us'\<close> assms(1) have "us = ''->'' @ us''" by simp
    then have "c @ us = c @ ''->'' @ us''" by simp
    then have "sublist ''->'' (c @ us)" unfolding sublist_def by blast
    with assms(2) show ?thesis by (simp add: arrowFree_def)
  qed
qed

lemma edgeKey_inject:
  assumes "edgeKey (a, b) = edgeKey (c, d)" and "arrowFree a" and "arrowFree c"
  shows "a = c \<and> b = d"
proof -
  from assms(1) have eq: "a @ ''->'' @ b = c @ ''->'' @ d"
    by (simp add: edgeKey_def)
  then obtain us where
    "(a = c @ us \<and> us @ ''->'' @ b = ''->'' @ d) \<or> (a @ us = c \<and> ''->'' @ b = us @ ''->'' @ d)"
    by (auto simp: append_eq_append_conv2)
  then have "a = c"
  proof
    assume h: "a = c @ us \<and> us @ ''->'' @ b = ''->'' @ d"
    then have "us = []" using arrow_overlap [of us b d c] assms(2) by simp
    with h show ?thesis by simp
  next
    assume h: "a @ us = c \<and> ''->'' @ b = us @ ''->'' @ d"
    then have "us = []" using arrow_overlap [of us d b a] assms(3) by simp
    with h show ?thesis by simp
  qed
  with eq show ?thesis by simp
qed

lemma edgeKey_image_iff:
  assumes "cleanEdge e" and "\<forall>x \<in> S. cleanEdge x"
  shows "edgeKey e \<in> edgeKey ` S \<longleftrightarrow> e \<in> S"
proof
  assume "edgeKey e \<in> edgeKey ` S"
  then obtain x where x: "x \<in> S" and k: "edgeKey e = edgeKey x" by blast
  have "edgeKey (fst e, snd e) = edgeKey (fst x, snd x)" using k by simp
  then have "fst e = fst x \<and> snd e = snd x"
    using assms x by (intro edgeKey_inject) (auto simp: cleanEdge_def)
  then have "e = x" by (simp add: prod_eq_iff)
  with x show "e \<in> S" by simp
qed blast

lemma reported_pairs:
  assumes "\<forall>x \<in> S \<union> set es. cleanEdge x"
  shows "reported (edgeKey ` S) es =
           map (\<lambda>k. es ! k)
             (filter (\<lambda>k. prod.swap (es ! k) \<in> S \<union> set (take k es)) [0..<length es])"
  using assms
proof (induction es arbitrary: S)
  case Nil
  show ?case by simp
next
  case (Cons e es)
  have ce: "cleanEdge (prod.swap e)"
    using Cons.prems by (auto simp: cleanEdge_def)
  have cS: "\<forall>x \<in> S. cleanEdge x" using Cons.prems by simp
  have hd: "edgeKey (prod.swap e) \<in> edgeKey ` S \<longleftrightarrow> prod.swap e \<in> S"
    by (rule edgeKey_image_iff [OF ce cS])
  have ih: "reported (edgeKey ` insert e S) es =
           map (\<lambda>k. es ! k)
             (filter (\<lambda>k. prod.swap (es ! k) \<in> insert e S \<union> set (take k es)) [0..<length es])"
    using Cons.prems by (intro Cons.IH) simp
  have upt: "[0..<length (e # es)] = 0 # map Suc [0..<length es]"
    by (simp add: upt_conv_Cons map_Suc_upt del: upt_Suc)
  show ?case
    unfolding upt
    using ih by (simp add: hd filter_map o_def disj_ac)
qed

lemma reported_reverseSeen:
  assumes "\<forall>x \<in> set es. cleanEdge x"
  shows "reported {} es = reverseSeen es"
  using reported_pairs [of "{}" es] assms by (simp add: reverseSeen_def)

lemma validatePhaseA_split:
  "\<exists>head errs. validatePhaseA gen p = head @ errs
     \<and> filter isError head = []
     \<and> (\<forall>v \<in> set errs. isError v)
     \<and> map v_message errs = map circularMessage (reported {} (edgesOf (p_services p)))"
proof -
  obtain head where v: "validatePhaseA gen p = snd (scanEdges gen (edgesOf (p_services p)) ({}, head))"
    and h: "filter isError head = []"
    by (simp add: validatePhaseA_def Let_def scanServices_scanEdges push_def isError_def)
  from scanEdges_results [of gen "edgesOf (p_services p)" "{}" head]
  obtain errs where "snd (scanEdges gen (edgesOf (p_services p)) ({}, head)) = head @ errs"
    "\<forall>v \<in> set errs. isError v"
    "map v_message errs = map circularMessage (reported {} (edgesOf (p_services p)))"
    by blast
  with v h show ?thesis by metis
qed

lemma phaseA_error_messages:
  "map v_message (filter isError (validatePhaseA gen p))
     = map circularMessage (reported {} (edgesOf (p_services p)))"
proof -
  from validatePhaseA_split [of gen p]
  obtain head errs where s: "validatePhaseA gen p = head @ errs"
    and h: "filter isError head = []"
    and e: "\<forall>v \<in> set errs. isError v"
    and m: "map v_message errs = map circularMessage (reported {} (edgesOf (p_services p)))"
    by blast
  have "filter isError errs = errs" using e by (simp add: filter_id_conv)
  then show ?thesis by (simp add: s h m)
qed

lemma sublist_circularMessage:
  "sublist (fst e) (circularMessage e)" "sublist (snd e) (circularMessage e)"
proof -
  have "circularMessage e = ''Circular dependency detected: '' @ fst e @ ('' <-> '' @ snd e)"
    by (simp add: circularMessage_def)
  then show "sublist (fst e) (circularMessage e)"
    unfolding sublist_def by blast
  have "circularMessage e = (''Circular dependency detected: '' @ fst e @ '' <-> '') @ snd e @ []"
    by (simp add: circularMessage_def)
  then show "sublist (snd e) (circularMessage e)"
    unfolding sublist_def by blast
qed

lemma mutual_pair_reported:
  assumes "p_services p = [sx, sy]"
    and "svc_name sx = x" and "svc_dependencies sx = [y]"
    and "svc_name sy = y" and "svc_dependencies sy = [x]"
  shows "\<exists>v \<in> set (validatePhaseA gen p).
           v_status v = ''error'' \<and> sublist x (v_message v) \<and> sublist y (v_message v)"
proof -
  have es: "edgesOf (p_services p) = [(x, y), (y, x)]"
    using assms by (simp add: edgesOf_def)
  have "reported {} (edgesOf (p_services p)) = [(y, x)]"
    unfolding es by (simp add: edgeKey_def)
  with phaseA_error_messages [of gen p]
  have m: "map v_message (filter isError (validatePhaseA gen p)) = [circularMessage (y, x)]"
    by simp
  then obtain v where f: "filter isError (validatePhaseA gen p) = [v]"
    and mv: "v_message v = circularMessage (y, x)"
    by (cases "filter isError (validatePhaseA gen p)") auto
  have "v \<in> set (filter isError (validatePhaseA gen p))" by (simp add: f)
  then have "v \<in> set (validatePhaseA gen p)" and "isError v" by simp_all
  moreover have "sublist x (v_message v)" "sublist y (v_message v)"
    using sublist_circularMessage [of "(y, x)"] by (simp_all add: mv)
  ultimately show ?thesis
    by (auto simp: isError_def)
qed

lemma circularProject_edges:
  "edgesOf (p_services circularProject) = [(''X'', ''Y''), (''Y'', ''X'')]"
  by (simp add: edgesOf_def circularProject_def serviceX_def serviceY_def exampleService_def)

lemma upt_2: "[0..<2] = [0, Suc 0]"
  by (simp add: upt_rec numeral_2_eq_2)

text \<open>
  When the two services name each other, whatever their names, an error naming both is
  emitted; and when no service name and no dependency name contains the separator
  \<open>->\<close>, the error results are, in order, those of the edges whose reverse edge was
  recorded earlier.
\<close>

lemma circular_scan_separator_free:
  "(p_services p = [sx, sy]
      \<and> svc_name sx = x \<and> svc_dependencies sx = [y]
      \<and> svc_name sy = y \<and> svc_dependencies sy = [x] \<longrightarrow>
      (\<exists>v \<in> set (validatePhaseA gen p).
          v_status v = ''error'' \<and> sublist x (v_message v) \<and> sublist y (v_message v)))
   \<and> (list_all cleanEdge (edgesOf (p_services p)) \<longrightarrow>
      map v_message (filter isError (validatePhaseA gen p))
        = map circularMessage (reverseSeen (edgesOf (p_services p))))
   \<and> validate gen (Some p) (Some ''A'') = (200, JsonValidations (validatePhaseA gen p))"
proof (intro conjI impI)
  assume "p_services p = [sx, sy]
      \<and> svc_name sx = x \<and> svc_dependencies sx = [y]
      \<and> svc_name sy = y \<and> svc_dependencies sy = [x]"
  then have a: "p_services p = [sx, sy]" "svc_name sx = x" "svc_dependencies sx = [y]"
    "svc_name sy = y" "svc_dependencies sy = [x]"
    by blast+
  show "\<exists>v \<in> set (validatePhaseA gen p).
          v_status v = ''error'' \<and> sublist x (v_message v) \<and> sublist y (v_message v)"
    by (rule mutual_pair_reported [OF a])
next
  assume "list_all cleanEdge (edgesOf (p_services p))"
  then have "reported {} (edgesOf (p_services p)) = reverseSeen (edgesOf (p_services p))"
    by (intro reported_reverseSeen) (simp add: list_all_iff)
  then show "map v_message (filter isError (validatePhaseA gen p))
        = map circularMessage (reverseSeen (edgesOf (p_services p)))"
    by (simp add: phaseA_error_messages)
next
  show "validate gen (Some p) (Some ''A'') = (200, JsonValidations (validatePhaseA gen p))"
    by (simp add: validate_def)
qed


text \<open>
  C5. The scan stores an edge as the string \<open>name->dep\<close> and looks up the string
  \<open>dep->name\<close>. For the services \<open>c->a\<close> depending on \<open>b\<close> and \<open>a->b\<close> depending on
  \<open>c\<close>, the second lookup is \<open>c->a->b\<close>, the string stored for the first edge: phase-A
  validation answers with the error \<open>a->b <-> c\<close>, although the edge from \<open>c\<close> to
  \<open>a->b\<close> is no edge of the project and so was never recorded.
\<close>

theorem circular_dependency_false_positive:
  "edgesOf (p_services collidingProject) = [(''c->a'', ''b''), (''a->b'', ''c'')]
   \<and> (''c'', ''a->b'') \<notin> set (edgesOf (p_services collidingProject))
   \<and> reverseSeen (edgesOf (p_services collidingProject)) = []
   \<and> validate (\<lambda>k. showNat k) (Some collidingProject) (Some ''A'')
       = (200, JsonValidations
            [\<lparr>v_id = ''0'', v_phase = ''A'', v_category = ''Services'', v_status = ''passed'',
              v_message = ''2 services defined'', v_details = None\<rparr>,
             \<lparr>v_id = ''1'', v_phase = ''A'', v_category = ''Bounded Contexts'',
              v_status = ''warning'', v_message = ''No bounded contexts defined'',
              v_details =
                Some ''Consider grouping services into bounded contexts for better organization''\<rparr>,
             \<lparr>v_id = ''2'', v_phase = ''A'', v_category = ''Dependencies'', v_status = ''error'',
              v_message = ''Circular dependency detected: a->b <-> c'',
              v_details =
                Some ''Consider using async communication or event-driven patterns''\<rparr>])"
proof -
  have e: "edgesOf (p_services collidingProject) = [(''c->a'', ''b''), (''a->b'', ''c'')]"
    by (simp add: edgesOf_def collidingProject_def exampleService_def)
  have r: "reverseSeen [(''c->a'', ''b''), (''a->b'', ''c'')] = []"
    by (simp add: reverseSeen_def upt_2)
  have n: "showNat 0 = ''0''" "showNat (Suc 0) = ''1''" "showNat 2 = ''2''"
    "showNat (Suc (Suc 0)) = ''2''"
    by (simp_all add: showNat.simps digitChar_def)
  have v: "validatePhaseA (\<lambda>k. showNat k) collidingProject
       = [\<lparr>v_id = ''0'', v_phase = ''A'', v_category = ''Services'', v_status = ''passed'',
              v_message = ''2 services defined'', v_details = None\<rparr>,
             \<lparr>v_id = ''1'', v_phase = ''A'', v_category = ''Bounded Contexts'',
              v_status = ''warning'', v_message = ''No bounded contexts defined'',
              v_details =
                Some ''Consider grouping services into bounded contexts for better organization''\<rparr>,
             \<lparr>v_id = ''2'', v_phase = ''A'', v_category = ''Dependencies'', v_status = ''error'',
              v_message = ''Circular dependency detected: a->b <-> c'',
              v_details =
                Some ''Consider using async communication or event-driven patterns''\<rparr>]"
    by (simp add: validatePhaseA_def Let_def push_def collidingProject_def emptyProject_def
        exampleService_def n)
  show ?thesis
    by (simp add: e r v validate_def)
qed

end
